theory Spec2Isabelle
  imports Main "HOL-Library.Word"
begin

section \<open>AuctionSealFHE: the sealed-bid batch auction contract\<close>

text \<open>
  A shallow embedding of the Solidity contract \<^verbatim>\<open>AuctionSealFHE\<close>. Storage is a
  record, every external function takes the storage (and \<^verbatim>\<open>msg.sender\<close>,
  \<^verbatim>\<open>block.timestamp\<close> where the source reads them) and returns either the error it
  reverts with or the new storage together with the events it emits. A revert leaves
  the storage as it was, so the error branch carries no storage.
\<close>

subsection \<open>Value types\<close>

type_synonym address = "160 word"
type_synonym uint256 = "256 word"
type_synonym uint32 = "32 word"
type_synonym bytes32 = "256 word"
type_synonym bytes = "8 word list"

text \<open>The two encrypted types are user-defined value types over \<^verbatim>\<open>bytes32\<close> handles.\<close>

datatype euint32 = Euint32 bytes32
datatype ebool = Ebool bytes32

subsection \<open>Storage\<close>

record Bid =
  bidder :: address
  encryptedBidAmount :: euint32

record DecryptionContext =
  batchId :: uint256
  stateHash :: bytes32
  processed :: bool

text \<open>Solidity mappings are total: an absent key reads as the zero value.\<close>

record storage =
  owner :: address
  isProvider :: "address \<Rightarrow> bool"
  paused :: bool
  cooldownSeconds :: uint256
  lastSubmissionTime :: "address \<Rightarrow> uint256"
  lastDecryptionRequestTime :: "address \<Rightarrow> uint256"
  bids :: "Bid list"
  currentBatchId :: uint256
  batchOpen :: bool
  decryptionContexts :: "uint256 \<Rightarrow> DecryptionContext"

subsection \<open>Events and errors\<close>

datatype event =
    OwnershipTransferred address address
  | ProviderAdded address
  | ProviderRemoved address
  | Paused address
  | Unpaused address
  | CooldownSecondsSet uint256 uint256
  | BatchOpened uint256
  | BatchClosed uint256
  | BidSubmitted address uint256 euint32
  | DecryptionRequested uint256 uint256 bytes32
  | AuctionSettled uint256 uint256 address uint256

text \<open>
  The eleven custom errors of the contract, and the three other ways a call reverts:
  a failed \<^verbatim>\<open>require\<close> (with its message), the arithmetic panic of checked
  \<^verbatim>\<open>uint256\<close> arithmetic, and a failed \<^verbatim>\<open>abi.decode\<close>.
\<close>

datatype error =
    NotOwner
  | NotProvider
  | PausedError
  | CooldownActive
  | BatchNotOpen
  | NoBidsInBatch
  | ReplayAttempt
  | StateMismatch
  | InvalidProof
  | BidSubmissionFailed
  | DecryptionFailed
  | Require string
  | Panic
  | AbiDecodeFailed

type_synonym 'a result = "error + 'a"
type_synonym outcome = "(storage \<times> event list) result"

subsection \<open>What the contract imports\<close>

text \<open>
  The FHE library, \<^verbatim>\<open>keccak256\<close> and the address of the deployed contract are not
  part of the contract's source. They are parameters of the model, collected in one
  record; every theorem below holds for all values of these parameters unless it states
  an assumption about them.
  \<^item> \<open>FHE_ge a b\<close> is \<^verbatim>\<open>a.ge(b)\<close>, \<open>FHE_select a b c\<close> is \<^verbatim>\<open>FHE.select(a, b, c)\<close>.
  \<^item> \<open>FHE_truth c\<close> is the boolean the conditional expression
    \<^verbatim>\<open>isGreater ? bids[i].bidder : winner\<close> branches on.
  \<^item> \<open>FHE_checkSignatures\<close> is true where \<^verbatim>\<open>FHE.checkSignatures\<close> returns and false
    where it reverts.
  \<^item> \<open>keccak256\<close> hashes an ABI-encoded tuple, given as the list of its components.
\<close>

datatype abi = AbiAddress address | AbiBytes32Array "bytes32 list"

record fhe =
  FHE_ge :: "euint32 \<Rightarrow> euint32 \<Rightarrow> ebool"
  FHE_select :: "euint32 \<Rightarrow> euint32 \<Rightarrow> ebool \<Rightarrow> euint32"
  FHE_truth :: "ebool \<Rightarrow> bool"
  FHE_isInitialized :: "euint32 \<Rightarrow> bool"
  FHE_toBytes32 :: "euint32 \<Rightarrow> bytes32"
  FHE_checkSignatures :: "uint256 \<Rightarrow> bytes \<Rightarrow> bytes \<Rightarrow> bool"
  keccak256 :: "abi list \<Rightarrow> bytes32"
  this :: address

subsection \<open>Checked arithmetic and ABI decoding\<close>

text \<open>Solidity 0.8 reverts with a panic when \<^verbatim>\<open>uint256\<close> addition overflows.\<close>

definition checked_add :: "uint256 \<Rightarrow> uint256 \<Rightarrow> uint256 result" where
  "checked_add a b = (if unat a + unat b < 2 ^ 256 then Inr (a + b) else Inl Panic)"

text \<open>
  \<^verbatim>\<open>abi.decode(cleartexts, (uint32))\<close> reads the first 32 bytes as a big-endian word
  and reverts when there are fewer than 32 bytes or the word does not fit 32 bits.
\<close>

definition be_word :: "bytes \<Rightarrow> uint256" where
  "be_word bs = foldl (\<lambda>acc b. acc * 256 + ucast b) 0 bs"

definition abi_decode_uint32 :: "bytes \<Rightarrow> uint32 result" where
  "abi_decode_uint32 bs =
     (if length bs < 32 then Inl AbiDecodeFailed
      else if unat (be_word (take 32 bs)) < 2 ^ 32 then Inr (ucast (be_word (take 32 bs)))
      else Inl AbiDecodeFailed)"

subsection \<open>Modifiers\<close>

text \<open>A modifier guards the rest of the call, which is its last argument.\<close>

definition onlyOwner :: "storage \<Rightarrow> address \<Rightarrow> 'a result \<Rightarrow> 'a result" where
  "onlyOwner s sender body = (if sender \<noteq> owner s then Inl NotOwner else body)"

definition onlyProvider :: "storage \<Rightarrow> address \<Rightarrow> 'a result \<Rightarrow> 'a result" where
  "onlyProvider s sender body = (if \<not> isProvider s sender then Inl NotProvider else body)"

definition whenNotPaused :: "storage \<Rightarrow> 'a result \<Rightarrow> 'a result" where
  "whenNotPaused s body = (if paused s then Inl PausedError else body)"

definition checkSubmissionCooldown ::
  "storage \<Rightarrow> address \<Rightarrow> uint256 \<Rightarrow> 'a result \<Rightarrow> 'a result" where
  "checkSubmissionCooldown s sender timestamp body =
     (case checked_add (lastSubmissionTime s sender) (cooldownSeconds s) of
        Inl e \<Rightarrow> Inl e
      | Inr deadline \<Rightarrow> if timestamp < deadline then Inl CooldownActive else body)"

definition checkDecryptionCooldown ::
  "storage \<Rightarrow> address \<Rightarrow> uint256 \<Rightarrow> 'a result \<Rightarrow> 'a result" where
  "checkDecryptionCooldown s sender timestamp body =
     (case checked_add (lastDecryptionRequestTime s sender) (cooldownSeconds s) of
        Inl e \<Rightarrow> Inl e
      | Inr deadline \<Rightarrow> if timestamp < deadline then Inl CooldownActive else body)"

subsection \<open>Construction, roles, pause and cooldown\<close>

definition constructor :: "address \<Rightarrow> storage \<times> event list" where
  "constructor sender =
     (\<lparr>owner = sender,
       isProvider = (\<lambda>_. False)(sender := True),
       paused = False,
       cooldownSeconds = 60,
       lastSubmissionTime = (\<lambda>_. 0),
       lastDecryptionRequestTime = (\<lambda>_. 0),
       bids = [],
       currentBatchId = 0,
       batchOpen = False,
       decryptionContexts = (\<lambda>_. \<lparr>batchId = 0, stateHash = 0, processed = False\<rparr>)\<rparr>,
      [ProviderAdded sender])"

definition transferOwnership :: "storage \<Rightarrow> address \<Rightarrow> address \<Rightarrow> outcome" where
  "transferOwnership s sender newOwner =
     onlyOwner s sender
       (if newOwner = 0 then Inl (Require ''New owner is zero address'')
        else Inr (s\<lparr>owner := newOwner\<rparr>, [OwnershipTransferred (owner s) newOwner]))"

definition addProvider :: "storage \<Rightarrow> address \<Rightarrow> address \<Rightarrow> outcome" where
  "addProvider s sender provider =
     onlyOwner s sender
       (if \<not> isProvider s provider
        then Inr (s\<lparr>isProvider := (isProvider s)(provider := True)\<rparr>, [ProviderAdded provider])
        else Inr (s, []))"

definition removeProvider :: "storage \<Rightarrow> address \<Rightarrow> address \<Rightarrow> outcome" where
  "removeProvider s sender provider =
     onlyOwner s sender
       (if isProvider s provider
        then Inr (s\<lparr>isProvider := (isProvider s)(provider := False)\<rparr>, [ProviderRemoved provider])
        else Inr (s, []))"

definition pause :: "storage \<Rightarrow> address \<Rightarrow> outcome" where
  "pause s sender =
     onlyOwner s sender (whenNotPaused s (Inr (s\<lparr>paused := True\<rparr>, [Paused sender])))"

definition unpause :: "storage \<Rightarrow> address \<Rightarrow> outcome" where
  "unpause s sender = onlyOwner s sender (Inr (s\<lparr>paused := False\<rparr>, [Unpaused sender]))"

definition setCooldownSeconds :: "storage \<Rightarrow> address \<Rightarrow> uint256 \<Rightarrow> outcome" where
  "setCooldownSeconds s sender newCooldownSeconds =
     onlyOwner s sender
       (if \<not> newCooldownSeconds > 0 then Inl (Require ''Cooldown must be positive'')
        else Inr (s\<lparr>cooldownSeconds := newCooldownSeconds\<rparr>,
                  [CooldownSecondsSet (cooldownSeconds s) newCooldownSeconds]))"

subsection \<open>Batch lifecycle and the bid ledger\<close>

definition openBatch :: "storage \<Rightarrow> address \<Rightarrow> outcome" where
  "openBatch s sender =
     onlyOwner s sender (whenNotPaused s
       (case checked_add (currentBatchId s) 1 of
          Inl e \<Rightarrow> Inl e
        | Inr newId \<Rightarrow>
            Inr (s\<lparr>currentBatchId := newId, batchOpen := True, bids := []\<rparr>,
                 [BatchOpened newId])))"

definition closeBatch :: "storage \<Rightarrow> address \<Rightarrow> outcome" where
  "closeBatch s sender =
     onlyOwner s sender (whenNotPaused s
       (if \<not> batchOpen s then Inl BatchNotOpen
        else Inr (s\<lparr>batchOpen := False\<rparr>, [BatchClosed (currentBatchId s)])))"

definition submitBid :: "fhe \<Rightarrow> storage \<Rightarrow> address \<Rightarrow> uint256 \<Rightarrow> euint32 \<Rightarrow> outcome" where
  "submitBid F s sender timestamp amount =
     onlyProvider s sender (whenNotPaused s (checkSubmissionCooldown s sender timestamp
       (if \<not> batchOpen s then Inl BatchNotOpen
        else if \<not> FHE_isInitialized F amount then Inl BidSubmissionFailed
        else Inr (s\<lparr>lastSubmissionTime := (lastSubmissionTime s)(sender := timestamp),
                    bids := bids s @ [\<lparr>bidder = sender, encryptedBidAmount = amount\<rparr>]\<rparr>,
                  [BidSubmitted sender (currentBatchId s) amount]))))"

subsection \<open>The tournament and the decryption protocol\<close>

definition hashCiphertexts :: "fhe \<Rightarrow> bytes32 list \<Rightarrow> bytes32" where
  "hashCiphertexts F cts = keccak256 F [AbiBytes32Array cts, AbiAddress (this F)]"

text \<open>
  The loop \<^verbatim>\<open>for (uint i = 1; i < bids.length; i++)\<close>, over the bids from index 1 on,
  with the loop variables \<^verbatim>\<open>maxBid\<close> and \<^verbatim>\<open>winner\<close> as accumulators.
\<close>

fun tournament_loop :: "fhe \<Rightarrow> Bid list \<Rightarrow> euint32 \<Rightarrow> address \<Rightarrow> euint32 \<times> address" where
  "tournament_loop F [] maxBid winner = (maxBid, winner)"
| "tournament_loop F (b # rest) maxBid winner =
     (let isGreater = FHE_ge F (encryptedBidAmount b) maxBid;
          newMax = FHE_select F (encryptedBidAmount b) maxBid isGreater;
          newWinner = (if FHE_truth F isGreater then bidder b else winner)
      in tournament_loop F rest newMax newWinner)"

text \<open>
  The fold that \<^verbatim>\<open>findHighestBidder\<close> and \<^verbatim>\<open>myCallback\<close> both run: the empty-ledger
  check, the initialisation from \<^verbatim>\<open>bids[0]\<close>, and the loop.
\<close>

definition tournament :: "fhe \<Rightarrow> Bid list \<Rightarrow> (euint32 \<times> address) result" where
  "tournament F bs =
     (case bs of
        [] \<Rightarrow> Inl NoBidsInBatch
      | b0 # rest \<Rightarrow> Inr (tournament_loop F rest (encryptedBidAmount b0) (bidder b0)))"

definition fingerprint :: "fhe \<Rightarrow> euint32 \<Rightarrow> address \<Rightarrow> bytes32" where
  "fingerprint F maxBid winner =
     hashCiphertexts F [FHE_toBytes32 F maxBid, keccak256 F [AbiAddress winner]]"

text \<open>
  \<open>requestId\<close> is the value \<^verbatim>\<open>FHE.requestDecryption\<close> returns to the call: the
  decryption oracle chooses it, so it is an input of the model.
\<close>

definition findHighestBidder ::
  "fhe \<Rightarrow> storage \<Rightarrow> address \<Rightarrow> uint256 \<Rightarrow> uint256 \<Rightarrow> outcome" where
  "findHighestBidder F s sender timestamp requestId =
     onlyOwner s sender (whenNotPaused s (checkDecryptionCooldown s sender timestamp
       (case tournament F (bids s) of
          Inl e \<Rightarrow> Inl e
        | Inr (maxBid, winner) \<Rightarrow>
            Inr (s\<lparr>decryptionContexts := (decryptionContexts s)(requestId :=
                       \<lparr>batchId = currentBatchId s,
                        stateHash = fingerprint F maxBid winner,
                        processed = False\<rparr>),
                    lastDecryptionRequestTime :=
                      (lastDecryptionRequestTime s)(sender := timestamp)\<rparr>,
                 [DecryptionRequested requestId (currentBatchId s)
                    (fingerprint F maxBid winner)]))))"

definition myCallback :: "fhe \<Rightarrow> storage \<Rightarrow> uint256 \<Rightarrow> bytes \<Rightarrow> bytes \<Rightarrow> outcome" where
  "myCallback F s requestId cleartexts proof =
     (if processed (decryptionContexts s requestId) then Inl ReplayAttempt
      else case tournament F (bids s) of
          Inl e \<Rightarrow> Inl e
        | Inr (maxBid, winner) \<Rightarrow>
            if fingerprint F maxBid winner \<noteq> stateHash (decryptionContexts s requestId)
            then Inl StateMismatch
            else if \<not> FHE_checkSignatures F requestId cleartexts proof then Inl InvalidProof
            else (case abi_decode_uint32 cleartexts of
                Inl e \<Rightarrow> Inl e
              | Inr winningBidAmount \<Rightarrow>
                  Inr (s\<lparr>decryptionContexts := (decryptionContexts s)(requestId :=
                             (decryptionContexts s requestId)\<lparr>processed := True\<rparr>)\<rparr>,
                       [AuctionSettled requestId (batchId (decryptionContexts s requestId))
                          winner (ucast winningBidAmount)])))"

subsection \<open>Transactions\<close>

text \<open>
  The external functions of the contract as one type of calls, and the dispatch from a call to
  the function it names. A transaction is a call with its \<^verbatim>\<open>msg.sender\<close> and
  \<^verbatim>\<open>block.timestamp\<close>.
\<close>

datatype call =
    TransferOwnership address
  | AddProvider address
  | RemoveProvider address
  | Pause
  | Unpause
  | SetCooldownSeconds uint256
  | OpenBatch
  | CloseBatch
  | SubmitBid euint32
  | FindHighestBidder uint256
  | MyCallback uint256 bytes bytes

fun dispatch :: "fhe \<Rightarrow> storage \<Rightarrow> address \<Rightarrow> uint256 \<Rightarrow> call \<Rightarrow> outcome" where
  "dispatch F s sender timestamp (TransferOwnership newOwner) = transferOwnership s sender newOwner"
| "dispatch F s sender timestamp (AddProvider provider) = addProvider s sender provider"
| "dispatch F s sender timestamp (RemoveProvider provider) = removeProvider s sender provider"
| "dispatch F s sender timestamp Pause = pause s sender"
| "dispatch F s sender timestamp Unpause = unpause s sender"
| "dispatch F s sender timestamp (SetCooldownSeconds n) = setCooldownSeconds s sender n"
| "dispatch F s sender timestamp OpenBatch = openBatch s sender"
| "dispatch F s sender timestamp CloseBatch = closeBatch s sender"
| "dispatch F s sender timestamp (SubmitBid amount) = submitBid F s sender timestamp amount"
| "dispatch F s sender timestamp (FindHighestBidder requestId) =
     findHighestBidder F s sender timestamp requestId"
| "dispatch F s sender timestamp (MyCallback requestId cleartexts proof) =
     myCallback F s requestId cleartexts proof"

text \<open>
  A sequence of transactions, each run on the storage the one before left. The events
  accumulate in order; the run stops at the first transaction that reverts.
\<close>

fun exec :: "fhe \<Rightarrow> storage \<Rightarrow> (address \<times> uint256 \<times> call) list \<Rightarrow> outcome" where
  "exec F s [] = Inr (s, [])"
| "exec F s ((sender, timestamp, c) # txs) =
     (case dispatch F s sender timestamp c of
        Inl e \<Rightarrow> Inl e
      | Inr (s1, evs1) \<Rightarrow>
          (case exec F s1 txs of
             Inl e \<Rightarrow> Inl e
           | Inr (s2, evs2) \<Rightarrow> Inr (s2, evs1 @ evs2)))"

subsection \<open>Decryption and the laws of the encrypted operations\<close>

text \<open>
  The contract never decrypts. A statement about the plaintext under a ciphertext fixes a
  decryption function \<open>dec\<close> and assumes the two laws the FHE library promises:
  \<^verbatim>\<open>a.ge(b)\<close> is true exactly when the plaintext of \<open>a\<close> is at least the plaintext of
  \<open>b\<close>, and \<^verbatim>\<open>FHE.select(a, b, c)\<close> has the plaintext of \<open>a\<close> when \<open>c\<close> is true and
  the plaintext of \<open>b\<close> otherwise.
\<close>

definition homomorphic :: "fhe \<Rightarrow> (euint32 \<Rightarrow> uint32) \<Rightarrow> bool" where
  "homomorphic F dec \<longleftrightarrow>
     (\<forall>a b. FHE_truth F (FHE_ge F a b) = (dec a \<ge> dec b)) \<and>
     (\<forall>a b c. dec (FHE_select F a b c) = (if FHE_truth F c then dec a else dec b))"

text \<open>
  \<open>last_max dec bs m w\<close>: the plaintext of \<open>m\<close> is the greatest plaintext in the ledger
  \<open>bs\<close>, and \<open>w\<close> is the bidder of the last bid that has it.
\<close>

definition last_max :: "(euint32 \<Rightarrow> uint32) \<Rightarrow> Bid list \<Rightarrow> euint32 \<Rightarrow> address \<Rightarrow> bool" where
  "last_max dec bs m w \<longleftrightarrow>
     (\<exists>j<length bs. w = bidder (bs ! j) \<and> dec (encryptedBidAmount (bs ! j)) = dec m \<and>
        (\<forall>k<length bs. dec (encryptedBidAmount (bs ! k)) \<le> dec m \<and>
                        (j < k \<longrightarrow> dec (encryptedBidAmount (bs ! k)) < dec m)))"

subsection \<open>A test backend\<close>

text \<open>
  A backend with real comparisons, for evaluating the contract on concrete inputs: the
  plaintext of a handle is its low 32 bits, the handle 0 is uninitialised, \<open>select\<close>
  returns one of its arguments, a proof is valid when it is the single byte 1, and the
  hash is a toy polynomial (not collision resistant, and not needed to be).
\<close>

fun toy_abi :: "abi \<Rightarrow> bytes32" where
  "toy_abi (AbiAddress a) = ucast a"
| "toy_abi (AbiBytes32Array cts) = foldr (\<lambda>c acc. c + 3 * acc) cts 1"

definition toy_hash :: "abi list \<Rightarrow> bytes32" where
  "toy_hash xs = foldr (\<lambda>x acc. toy_abi x + 7 * acc) xs 1"

definition mock_decrypt :: "euint32 \<Rightarrow> uint32" where
  "mock_decrypt e = (case e of Euint32 h \<Rightarrow> ucast h)"

definition mockFHE :: fhe where
  "mockFHE =
     \<lparr>FHE_ge = (\<lambda>a b. Ebool (if mock_decrypt a \<ge> mock_decrypt b then 1 else 0)),
      FHE_select = (\<lambda>a b c. if c = Ebool 1 then a else b),
      FHE_truth = (\<lambda>c. c = Ebool 1),
      FHE_isInitialized = (\<lambda>e. e \<noteq> Euint32 0),
      FHE_toBytes32 = (\<lambda>e. case e of Euint32 h \<Rightarrow> h),
      FHE_checkSignatures = (\<lambda>requestId cleartexts proof. proof = [1]),
      keccak256 = toy_hash,
      this = 0xC0\<rparr>"

text \<open>Bids of 10, 20 and 20 from the bidders \<open>0xA\<close>, \<open>0xB\<close> and \<open>0xC\<close>, in this order.\<close>

definition tie_ledger :: "Bid list" where
  "tie_ledger =
     [\<lparr>bidder = 0xA, encryptedBidAmount = Euint32 0x10000000A\<rparr>,
      \<lparr>bidder = 0xB, encryptedBidAmount = Euint32 0x200000014\<rparr>,
      \<lparr>bidder = 0xC, encryptedBidAmount = Euint32 0x300000014\<rparr>]"

text \<open>
  The storage after the owner \<open>0xF\<close> has deployed the contract, added the three bidders as
  providers, opened batch 1 and each bidder has submitted its bid at time 100 (lemma
  \<open>tie_state_reachable\<close> below).
\<close>

definition tie_state :: storage where
  "tie_state =
     \<lparr>owner = 0xF,
      isProvider = (\<lambda>_. False)(0xF := True, 0xA := True, 0xB := True, 0xC := True),
      paused = False,
      cooldownSeconds = 60,
      lastSubmissionTime = (\<lambda>_. 0)(0xA := 100, 0xB := 100, 0xC := 100),
      lastDecryptionRequestTime = (\<lambda>_. 0),
      bids = tie_ledger,
      currentBatchId = 1,
      batchOpen = True,
      decryptionContexts = (\<lambda>_. \<lparr>batchId = 0, stateHash = 0, processed = False\<rparr>)\<rparr>"

text \<open>
  \<^verbatim>\<open>abi.encode(uint32(v))\<close> for a value below 256: 31 zero bytes and the byte \<open>v\<close>.
\<close>

definition abi_encode_small :: "8 word \<Rightarrow> bytes" where
  "abi_encode_small v = replicate 31 0 @ [v]"

text \<open>
  \<open>tie_state\<close> after the owner has called \<open>findHighestBidder\<close> at time 200 and the
  oracle has answered with request id 7.
\<close>

definition requested_state :: storage where
  "requested_state =
     tie_state\<lparr>decryptionContexts := (decryptionContexts tie_state)(7 :=
                  \<lparr>batchId = 1,
                   stateHash = fingerprint mockFHE (Euint32 0x300000014) 0xC,
                   processed = False\<rparr>),
               lastDecryptionRequestTime := (lastDecryptionRequestTime tie_state)(0xF := 200)\<rparr>"

text \<open>The freshly deployed contract after its owner has paused it.\<close>

definition paused_state :: storage where
  "paused_state = (fst (constructor 0xF))\<lparr>paused := True\<rparr>"

text \<open>
  The storage after the owner has opened batch 1, submitted a bid at time 100 and then set
  the cooldown to the greatest \<^verbatim>\<open>uint256\<close>.
\<close>

definition huge_cooldown_state :: storage where
  "huge_cooldown_state =
     (fst (constructor 0xF))
       \<lparr>cooldownSeconds := - 1,
        lastSubmissionTime := (\<lambda>_. 0)(0xF := 100),
        bids := [\<lparr>bidder = 0xF, encryptedBidAmount = Euint32 0x10000000A\<rparr>],
        currentBatchId := 1,
        batchOpen := True\<rparr>"

text \<open>\<open>requested_state\<close> after the owner has opened the next batch.\<close>

definition reopened_state :: storage where
  "reopened_state = requested_state\<lparr>currentBatchId := 2, batchOpen := True, bids := []\<rparr>"

text \<open>
  \<open>requested_state\<close> after the owner, who is a provider, has submitted a bid of 30 at
  time 300 into the batch, which is still open.
\<close>

definition outbid_state :: storage where
  "outbid_state =
     requested_state
       \<lparr>lastSubmissionTime := (lastSubmissionTime requested_state)(0xF := 300),
        bids := tie_ledger @ [\<lparr>bidder = 0xF, encryptedBidAmount = Euint32 0x40000001E\<rparr>]\<rparr>"

text \<open>
  The ciphertext that two rounds of the tournament loop compute from three bids: the
  result of \<^verbatim>\<open>FHE.select\<close> on the third bid and on the \<^verbatim>\<open>FHE.select\<close> of the first
  two.
\<close>

definition three_bid_max :: "fhe \<Rightarrow> euint32 \<Rightarrow> euint32 \<Rightarrow> euint32 \<Rightarrow> euint32" where
  "three_bid_max F hA hB hC =
     FHE_select F hC (FHE_select F hB hA (FHE_ge F hB hA))
       (FHE_ge F hC (FHE_select F hB hA (FHE_ge F hB hA)))"

subsection \<open>The run of the end-to-end scenario\<close>

text \<open>
  Two backends have the same handles when they agree on everything that produces or reads
  a ciphertext handle or a hash: the encrypted operations, \<open>isInitialized\<close>,
  \<open>toBytes32\<close>, \<open>keccak256\<close> and the contract address. They may differ in the
  plaintexts under the handles, that is in \<open>FHE_truth\<close>, and in what the oracle signs,
  \<open>FHE_checkSignatures\<close>.
\<close>

definition same_handles :: "fhe \<Rightarrow> fhe \<Rightarrow> bool" where
  "same_handles F F' \<longleftrightarrow>
     FHE_ge F' = FHE_ge F \<and> FHE_select F' = FHE_select F \<and>
     FHE_isInitialized F' = FHE_isInitialized F \<and> FHE_toBytes32 F' = FHE_toBytes32 F \<and>
     keccak256 F' = keccak256 F \<and> this F' = this F"

text \<open>
  The calls of the scenario up to the decryption request: the owner registers the bidders
  A, B and C and opens a batch, the three submit their ciphertexts, the owner closes the
  batch and calls \<open>findHighestBidder\<close>, to which the oracle answers \<open>requestId\<close>.
\<close>

definition scenario_calls ::
  "address \<Rightarrow> address \<Rightarrow> address \<Rightarrow> address \<Rightarrow> euint32 \<Rightarrow> euint32 \<Rightarrow> euint32 \<Rightarrow>
   uint256 \<Rightarrow> uint256 \<Rightarrow> uint256 \<Rightarrow> uint256 \<Rightarrow> (address \<times> uint256 \<times> call) list" where
  "scenario_calls Owner A B C hA hB hC t0 t1 t2 requestId =
     [(Owner, t0, AddProvider A), (Owner, t0, AddProvider B), (Owner, t0, AddProvider C),
      (Owner, t0, OpenBatch),
      (A, t1, SubmitBid hA), (B, t1, SubmitBid hB), (C, t1, SubmitBid hC),
      (Owner, t2, CloseBatch),
      (Owner, t2, FindHighestBidder requestId)]"

text \<open>The events these calls emit when all of them succeed and B leads the tournament.\<close>

definition scenario_events ::
  "fhe \<Rightarrow> address \<Rightarrow> address \<Rightarrow> address \<Rightarrow> euint32 \<Rightarrow> euint32 \<Rightarrow> euint32 \<Rightarrow> uint256 \<Rightarrow>
   event list" where
  "scenario_events F A B C hA hB hC requestId =
     [ProviderAdded A, ProviderAdded B, ProviderAdded C,
      BatchOpened 1,
      BidSubmitted A 1 hA, BidSubmitted B 1 hB, BidSubmitted C 1 hC,
      BatchClosed 1,
      DecryptionRequested requestId 1 (fingerprint F (three_bid_max F hA hB hC) B)]"

text \<open>The storage after these calls and the callback that settles the request.\<close>

definition settled_storage ::
  "fhe \<Rightarrow> address \<Rightarrow> address \<Rightarrow> address \<Rightarrow> address \<Rightarrow> euint32 \<Rightarrow> euint32 \<Rightarrow> euint32 \<Rightarrow>
   uint256 \<Rightarrow> uint256 \<Rightarrow> uint256 \<Rightarrow> storage" where
  "settled_storage F Owner A B C hA hB hC t1 t2 requestId =
     \<lparr>owner = Owner,
      isProvider = (\<lambda>_. False)(Owner := True, A := True, B := True, C := True),
      paused = False,
      cooldownSeconds = 60,
      lastSubmissionTime = (\<lambda>_. 0)(A := t1, B := t1, C := t1),
      lastDecryptionRequestTime = (\<lambda>_. 0)(Owner := t2),
      bids = [\<lparr>bidder = A, encryptedBidAmount = hA\<rparr>,
              \<lparr>bidder = B, encryptedBidAmount = hB\<rparr>,
              \<lparr>bidder = C, encryptedBidAmount = hC\<rparr>],
      currentBatchId = 1,
      batchOpen = False,
      decryptionContexts = (\<lambda>_. \<lparr>batchId = 0, stateHash = 0, processed = False\<rparr>)
        (requestId := \<lparr>batchId = 1,
                        stateHash = fingerprint F (three_bid_max F hA hB hC) B,
                        processed = True\<rparr>)\<rparr>"

text \<open>
  A second test backend, whose handles say nothing about the plaintexts: the plaintext of
  the handles 1, 2 and 3 is read from a table, and the same comparisons hold for the
  table 5, 15, 9 and for the table 6, 20, 10. The oracle of \<open>tableFHE winning\<close> signs
  the cleartext \<open>winning\<close> only.
\<close>

definition table_dec :: "uint32 \<Rightarrow> uint32 \<Rightarrow> uint32 \<Rightarrow> euint32 \<Rightarrow> uint32" where
  "table_dec pA pB pC h =
     (if h = Euint32 1 then pA else if h = Euint32 2 then pB else if h = Euint32 3 then pC
      else 0)"

definition tableFHE :: "uint32 \<Rightarrow> fhe" where
  "tableFHE winning =
     \<lparr>FHE_ge = (\<lambda>a b. Ebool (if table_dec 5 15 9 a \<ge> table_dec 5 15 9 b then 1 else 0)),
      FHE_select = (\<lambda>a b c. if c = Ebool 1 then a else b),
      FHE_truth = (\<lambda>c. c = Ebool 1),
      FHE_isInitialized = (\<lambda>e. e \<noteq> Euint32 0),
      FHE_toBytes32 = (\<lambda>e. case e of Euint32 h \<Rightarrow> h),
      FHE_checkSignatures =
        (\<lambda>requestId cleartexts proof.
           proof = [1] \<and> abi_decode_uint32 cleartexts = Inr winning),
      keccak256 = toy_hash,
      this = 0xC0\<rparr>"

section \<open>Properties\<close>

subsection \<open>Auxiliary facts\<close>

lemma checked_add_one:
  "checked_add x 1 = (if unat x + 1 < 2 ^ 256 then Inr (x + 1) else Inl Panic)"
  by (simp add: checked_add_def)

lemma unat_succ_no_overflow:
  fixes x :: uint256
  assumes "unat x + 1 < 2 ^ 256"
  shows "unat (x + 1) = unat x + 1"
  using assms by (simp add: unat_word_ariths)

lemma openBatch_Inr_iff:
  "openBatch s sender = Inr r \<longleftrightarrow>
     sender = owner s \<and> \<not> paused s \<and> unat (currentBatchId s) + 1 < 2 ^ 256 \<and>
     r = (s\<lparr>currentBatchId := currentBatchId s + 1, batchOpen := True, bids := []\<rparr>,
          [BatchOpened (currentBatchId s + 1)])"
  by (auto simp: openBatch_def onlyOwner_def whenNotPaused_def checked_add_one)

lemma mock_homomorphic: "homomorphic mockFHE mock_decrypt"
  by (simp add: homomorphic_def mockFHE_def)

lemmas op_defs = transferOwnership_def addProvider_def removeProvider_def pause_def
  unpause_def setCooldownSeconds_def openBatch_def closeBatch_def submitBid_def
  findHighestBidder_def myCallback_def onlyOwner_def onlyProvider_def whenNotPaused_def
  checkSubmissionCooldown_def checkDecryptionCooldown_def

lemma tie_state_reachable:
  "exec mockFHE (fst (constructor 0xF))
     [(0xF, 100, AddProvider 0xA), (0xF, 100, AddProvider 0xB), (0xF, 100, AddProvider 0xC),
      (0xF, 100, OpenBatch),
      (0xA, 100, SubmitBid (Euint32 0x10000000A)),
      (0xB, 100, SubmitBid (Euint32 0x200000014)),
      (0xC, 100, SubmitBid (Euint32 0x300000014))]
   = Inr (tie_state,
       [ProviderAdded 0xA, ProviderAdded 0xB, ProviderAdded 0xC, BatchOpened 1,
        BidSubmitted 0xA 1 (Euint32 0x10000000A),
        BidSubmitted 0xB 1 (Euint32 0x200000014),
        BidSubmitted 0xC 1 (Euint32 0x300000014)])"
  by (simp add: constructor_def op_defs checked_add_def tie_state_def tie_ledger_def mockFHE_def)

text \<open>When \<open>findHighestBidder\<close> and \<open>myCallback\<close> succeed, and with what result.\<close>

lemma findHighestBidder_Inr_iff:
  "findHighestBidder F s sender timestamp requestId = Inr r \<longleftrightarrow>
     sender = owner s \<and> \<not> paused s \<and>
     unat (lastDecryptionRequestTime s sender) + unat (cooldownSeconds s) < 2 ^ 256 \<and>
     \<not> timestamp < lastDecryptionRequestTime s sender + cooldownSeconds s \<and>
     (\<exists>maxBid winner. tournament F (bids s) = Inr (maxBid, winner) \<and>
        r = (s\<lparr>decryptionContexts := (decryptionContexts s)(requestId :=
                       \<lparr>batchId = currentBatchId s,
                        stateHash = fingerprint F maxBid winner,
                        processed = False\<rparr>),
                    lastDecryptionRequestTime :=
                      (lastDecryptionRequestTime s)(sender := timestamp)\<rparr>,
                 [DecryptionRequested requestId (currentBatchId s)
                    (fingerprint F maxBid winner)]))"
  by (auto simp: findHighestBidder_def onlyOwner_def whenNotPaused_def
      checkDecryptionCooldown_def checked_add_def split: sum.splits)

lemma myCallback_Inr_iff:
  "myCallback F s requestId cleartexts proof = Inr r \<longleftrightarrow>
     \<not> processed (decryptionContexts s requestId) \<and>
     (\<exists>maxBid winner amount. tournament F (bids s) = Inr (maxBid, winner) \<and>
        fingerprint F maxBid winner = stateHash (decryptionContexts s requestId) \<and>
        FHE_checkSignatures F requestId cleartexts proof \<and>
        abi_decode_uint32 cleartexts = Inr amount \<and>
        r = (s\<lparr>decryptionContexts := (decryptionContexts s)(requestId :=
                   (decryptionContexts s requestId)\<lparr>processed := True\<rparr>)\<rparr>,
             [AuctionSettled requestId (batchId (decryptionContexts s requestId))
                winner (ucast amount)]))"
  by (auto simp: myCallback_def split: sum.splits)

subsection \<open>The tournament\<close>

lemma last_max_single: "last_max dec [b] (encryptedBidAmount b) (bidder b)"
  by (simp add: last_max_def)

text \<open>One round of the loop keeps the invariant, on the ledger extended by the bid it reads.\<close>

lemma last_max_snoc:
  assumes H: "homomorphic F dec" and L: "last_max dec pre m w"
  shows "last_max dec (pre @ [b])
           (FHE_select F (encryptedBidAmount b) m (FHE_ge F (encryptedBidAmount b) m))
           (if FHE_truth F (FHE_ge F (encryptedBidAmount b) m) then bidder b else w)"
proof (cases "dec m \<le> dec (encryptedBidAmount b)")
  case True
  have tr: "FHE_truth F (FHE_ge F (encryptedBidAmount b) m)"
    using H True by (simp add: homomorphic_def)
  have dn: "dec (FHE_select F (encryptedBidAmount b) m (FHE_ge F (encryptedBidAmount b) m))
              = dec (encryptedBidAmount b)"
    using H tr by (simp add: homomorphic_def)
  have le: "\<forall>k<length pre. dec (encryptedBidAmount (pre ! k)) \<le> dec (encryptedBidAmount b)"
    using L True unfolding last_max_def by (meson order_trans)
  show ?thesis
    unfolding last_max_def dn
    apply (rule exI [of _ "length pre"])
    using le tr by (auto simp: nth_append)
next
  case False
  have tr: "\<not> FHE_truth F (FHE_ge F (encryptedBidAmount b) m)"
    using H False by (simp add: homomorphic_def)
  have dn: "dec (FHE_select F (encryptedBidAmount b) m (FHE_ge F (encryptedBidAmount b) m))
              = dec m"
    using H tr by (simp add: homomorphic_def)
  from L obtain j where j: "j < length pre" "w = bidder (pre ! j)"
      "dec (encryptedBidAmount (pre ! j)) = dec m"
      "\<forall>k<length pre. dec (encryptedBidAmount (pre ! k)) \<le> dec m \<and>
                        (j < k \<longrightarrow> dec (encryptedBidAmount (pre ! k)) < dec m)"
    unfolding last_max_def by blast
  show ?thesis
    unfolding last_max_def dn
    apply (rule exI [of _ j])
    using j tr False by (auto simp: nth_append less_Suc_eq)
qed

lemma tournament_loop_last_max:
  assumes "homomorphic F dec"
  shows "last_max dec pre m w \<Longrightarrow>
         last_max dec (pre @ rest) (fst (tournament_loop F rest m w))
                                   (snd (tournament_loop F rest m w))"
proof (induction rest arbitrary: pre m w)
  case Nil
  then show ?case by simp
next
  case (Cons b rest)
  have "last_max dec ((pre @ [b]) @ rest)
          (fst (tournament_loop F (b # rest) m w)) (snd (tournament_loop F (b # rest) m w))"
    using Cons.IH [OF last_max_snoc [OF assms Cons.prems, of b]] by (simp add: Let_def)
  then show ?case by simp
qed

lemma last_max_Max:
  assumes "last_max dec bs m w"
  shows "dec m = Max (set (map (dec \<circ> encryptedBidAmount) bs))"
proof -
  from assms obtain j where j: "j < length bs" "dec (encryptedBidAmount (bs ! j)) = dec m"
      "\<forall>k<length bs. dec (encryptedBidAmount (bs ! k)) \<le> dec m"
    unfolding last_max_def by blast
  have "Max (set (map (dec \<circ> encryptedBidAmount) bs)) = dec m"
  proof (rule Max_eqI)
    show "finite (set (map (dec \<circ> encryptedBidAmount) bs))" by simp
    show "dec m \<in> set (map (dec \<circ> encryptedBidAmount) bs)"
      using j(1,2) by (metis comp_apply length_map nth_map nth_mem)
    fix y assume "y \<in> set (map (dec \<circ> encryptedBidAmount) bs)"
    then obtain k where "k < length bs" "y = dec (encryptedBidAmount (bs ! k))"
      by (auto simp: in_set_conv_nth)
    then show "y \<le> dec m" using j(3) by simp
  qed
  then show ?thesis by simp
qed

lemma tournament_last_max:
  assumes "homomorphic F dec" and "bs \<noteq> []"
  shows "\<exists>m w. tournament F bs = Inr (m, w) \<and> last_max dec bs m w"
proof -
  from assms(2) obtain b0 rest where bs: "bs = b0 # rest" by (cases bs) auto
  let ?r = "tournament_loop F rest (encryptedBidAmount b0) (bidder b0)"
  have "last_max dec bs (fst ?r) (snd ?r)"
    using tournament_loop_last_max [OF assms(1) last_max_single, of b0 rest] bs by simp
  moreover have "tournament F bs = Inr (fst ?r, snd ?r)" by (simp add: tournament_def bs)
  ultimately show ?thesis by blast
qed

text \<open>
  C1. For every non-empty ledger, the tournament returns a ciphertext whose plaintext is
  the maximum of the plaintexts of all bids, and the winner it returns is the bidder of
  the last bid with that maximal plaintext: every later bid is strictly smaller.
\<close>

theorem tournament_true_max_last_wins:
  assumes "homomorphic F dec" and "bs \<noteq> []"
  shows "\<exists>maxBid winner. tournament F bs = Inr (maxBid, winner) \<and>
           dec maxBid = Max (set (map (dec \<circ> encryptedBidAmount) bs)) \<and>
           (\<exists>j<length bs. winner = bidder (bs ! j) \<and>
                dec (encryptedBidAmount (bs ! j)) = dec maxBid \<and>
                (\<forall>k<length bs. j < k \<longrightarrow> dec (encryptedBidAmount (bs ! k)) < dec maxBid))"
proof -
  from tournament_last_max [OF assms] obtain m w
    where t: "tournament F bs = Inr (m, w)" and lm: "last_max dec bs m w" by blast
  have "dec m = Max (set (map (dec \<circ> encryptedBidAmount) bs))"
    by (rule last_max_Max [OF lm])
  moreover have "\<exists>j<length bs. w = bidder (bs ! j) \<and>
                dec (encryptedBidAmount (bs ! j)) = dec m \<and>
                (\<forall>k<length bs. j < k \<longrightarrow> dec (encryptedBidAmount (bs ! k)) < dec m)"
    using lm unfolding last_max_def by blast
  ultimately show ?thesis using t by blast
qed

theorem tournament_true_max_last_wins_witness:
  "homomorphic mockFHE mock_decrypt \<and> tie_ledger \<noteq> [] \<and>
   (\<exists>maxBid. tournament mockFHE tie_ledger = Inr (maxBid, 0xC) \<and> mock_decrypt maxBid = 20)"
proof -
  have ne: "tie_ledger \<noteq> []" by (simp add: tie_ledger_def)
  from tournament_true_max_last_wins [OF mock_homomorphic ne]
  obtain maxBid winner j where
    t: "tournament mockFHE tie_ledger = Inr (maxBid, winner)" and
    m: "mock_decrypt maxBid = Max (set (map (mock_decrypt \<circ> encryptedBidAmount) tie_ledger))" and
    j: "j < length tie_ledger" "winner = bidder (tie_ledger ! j)"
       "mock_decrypt (encryptedBidAmount (tie_ledger ! j)) = mock_decrypt maxBid" and
    k: "\<forall>k<length tie_ledger. j < k \<longrightarrow>
           mock_decrypt (encryptedBidAmount (tie_ledger ! k)) < mock_decrypt maxBid"
    by blast
  have m20: "mock_decrypt maxBid = 20"
    using m by (simp add: tie_ledger_def mock_decrypt_def)
  have "j = 0 \<or> j = 1 \<or> j = 2"
    using j(1) by (auto simp: tie_ledger_def)
  moreover have "j \<noteq> 0"
  proof
    assume "j = 0"
    with j(3) m20 show False by (simp add: tie_ledger_def mock_decrypt_def)
  qed
  moreover have "j \<noteq> 1"
  proof
    assume "j = 1"
    with k [rule_format, of 2] m20 show False by (simp add: tie_ledger_def mock_decrypt_def)
  qed
  ultimately have "j = 2" by blast
  then have "winner = 0xC" using j(2) by (simp add: tie_ledger_def)
  then show ?thesis using t m20 ne mock_homomorphic by blast
qed

subsection \<open>Opening a batch\<close>

text \<open>
  C6. When \<open>openBatch\<close> succeeds, the batch id has grown by one, the batch is open, the
  ledger is empty and the one event emitted is \<open>BatchOpened\<close> with the new id. It
  succeeds exactly when the caller is the owner, the contract is not paused and the
  increment does not overflow.
\<close>

theorem openBatch_effect:
  "(openBatch s sender = Inr (s', evs) \<longrightarrow>
      unat (currentBatchId s') = unat (currentBatchId s) + 1 \<and> batchOpen s' \<and>
      bids s' = [] \<and> evs = [BatchOpened (currentBatchId s')]) \<and>
   ((\<exists>r. openBatch s sender = Inr r) \<longleftrightarrow>
      sender = owner s \<and> \<not> paused s \<and> unat (currentBatchId s) + 1 < 2 ^ 256)"
  by (auto simp: openBatch_Inr_iff unat_succ_no_overflow)

theorem openBatch_effect_witness:
  "\<exists>s' evs. openBatch (fst (constructor 1)) 1 = Inr (s', evs) \<and>
     unat (currentBatchId s') = 1 \<and> batchOpen s' \<and> bids s' = [] \<and> evs = [BatchOpened 1]"
proof -
  let ?s = "fst (constructor 1)"
  have pre: "(1::address) = owner ?s \<and> \<not> paused ?s \<and> unat (currentBatchId ?s) + 1 < 2 ^ 256"
    by (simp add: constructor_def)
  then obtain r where r: "openBatch ?s 1 = Inr r"
    using openBatch_effect [of ?s 1] by blast
  obtain s' evs where sv: "r = (s', evs)" by (cases r)
  have "unat (currentBatchId s') = unat (currentBatchId ?s) + 1 \<and> batchOpen s' \<and>
      bids s' = [] \<and> evs = [BatchOpened (currentBatchId s')]"
    using openBatch_effect [of ?s 1 s' evs] r sv by simp
  moreover have "currentBatchId ?s = 0" by (simp add: constructor_def)
  ultimately have "unat (currentBatchId s') = 1 \<and> batchOpen s' \<and> bids s' = [] \<and>
      evs = [BatchOpened (currentBatchId s')]" by simp
  moreover from this have "currentBatchId s' = 1"
    by (simp add: word_unat_eq_iff)
  ultimately show ?thesis using r sv by auto
qed

text \<open>
  C9. \<open>openBatch\<close> does not look at the open flag: on an open batch it succeeds like on a
  closed one, starts the next batch with an empty ledger, and emits \<open>BatchOpened\<close> only;
  no \<open>BatchClosed\<close> is emitted for the batch it discards.
\<close>

theorem openBatch_while_open:
  assumes "batchOpen s" and "sender = owner s" and "\<not> paused s"
    and "unat (currentBatchId s) + 1 < 2 ^ 256"
  shows "\<exists>s' evs. openBatch s sender = Inr (s', evs) \<and>
           currentBatchId s' = currentBatchId s + 1 \<and> batchOpen s' \<and> bids s' = [] \<and>
           evs = [BatchOpened (currentBatchId s + 1)] \<and> (\<forall>b. BatchClosed b \<notin> set evs)"
  using assms by (simp add: openBatch_Inr_iff)

theorem openBatch_while_open_witness:
  "batchOpen tie_state \<and> bids tie_state \<noteq> [] \<and>
   (\<exists>s'. openBatch tie_state 0xF = Inr (s', [BatchOpened 2]) \<and> bids s' = [] \<and>
      currentBatchId s' = 2 \<and> batchOpen s')"
proof -
  have h: "batchOpen tie_state" "0xF = owner tie_state" "\<not> paused tie_state"
    "unat (currentBatchId tie_state) + 1 < 2 ^ 256"
    by (simp_all add: tie_state_def)
  have "currentBatchId tie_state + 1 = 2" by (simp add: tie_state_def)
  moreover have "bids tie_state \<noteq> []" by (simp add: tie_state_def tie_ledger_def)
  ultimately show ?thesis using openBatch_while_open [OF h] h(1) by auto
qed

subsection \<open>Requesting the decryption\<close>

text \<open>
  C10. A successful \<open>findHighestBidder\<close> changes the storage in two places only: the
  decryption context stored under the request id, and the caller's time of last
  decryption request. The ledger, the batch id and open flag, the owner, the providers,
  the pause flag and the cooldown are as before, and so is every other context and every
  other caller's time.
\<close>

theorem findHighestBidder_frame:
  assumes "findHighestBidder F s sender timestamp requestId = Inr (s', evs)"
  shows "s' = s\<lparr>decryptionContexts :=
                  (decryptionContexts s)(requestId := decryptionContexts s' requestId),
                lastDecryptionRequestTime :=
                  (lastDecryptionRequestTime s)(sender := timestamp)\<rparr> \<and>
         bids s' = bids s \<and> currentBatchId s' = currentBatchId s \<and>
         batchOpen s' = batchOpen s \<and> owner s' = owner s \<and> isProvider s' = isProvider s \<and>
         paused s' = paused s \<and> cooldownSeconds s' = cooldownSeconds s \<and>
         lastSubmissionTime s' = lastSubmissionTime s \<and>
         (\<forall>r. r \<noteq> requestId \<longrightarrow> decryptionContexts s' r = decryptionContexts s r) \<and>
         (\<forall>a. a \<noteq> sender \<longrightarrow>
              lastDecryptionRequestTime s' a = lastDecryptionRequestTime s a)"
  using assms by (auto simp: findHighestBidder_Inr_iff)

theorem findHighestBidder_frame_witness:
  "\<exists>s' evs. findHighestBidder mockFHE tie_state 0xF 200 7 = Inr (s', evs) \<and>
     bids s' = tie_ledger \<and> currentBatchId s' = 1 \<and> batchOpen s' \<and> owner s' = 0xF \<and>
     \<not> paused s' \<and> cooldownSeconds s' = 60 \<and> isProvider s' = isProvider tie_state \<and>
     decryptionContexts s' 8 = decryptionContexts tie_state 8 \<and>
     lastDecryptionRequestTime s' 0xA = 0"
proof -
  have "\<exists>r. findHighestBidder mockFHE tie_state 0xF 200 7 = Inr r"
    unfolding findHighestBidder_Inr_iff
    by (simp add: tie_state_def tie_ledger_def tournament_def word_less_nat_alt)
  then obtain s' evs where r: "findHighestBidder mockFHE tie_state 0xF 200 7 = Inr (s', evs)"
    by auto
  from findHighestBidder_frame [OF r] have
    "bids s' = bids tie_state \<and> currentBatchId s' = currentBatchId tie_state \<and>
     batchOpen s' = batchOpen tie_state \<and> owner s' = owner tie_state \<and>
     isProvider s' = isProvider tie_state \<and> paused s' = paused tie_state \<and>
     cooldownSeconds s' = cooldownSeconds tie_state \<and>
     decryptionContexts s' 8 = decryptionContexts tie_state 8 \<and>
     lastDecryptionRequestTime s' 0xA = lastDecryptionRequestTime tie_state 0xA"
    by simp
  then show ?thesis using r by (auto simp: tie_state_def)
qed

subsection \<open>Test inputs\<close>

lemma be_word_zeros: "foldl (\<lambda>acc b. acc * 256 + ucast b) (0::uint256) (replicate n (0::8 word)) = 0"
  by (induction n) simp_all

lemma be_word_small: "be_word (abi_encode_small v) = ucast v"
  by (simp add: be_word_def abi_encode_small_def be_word_zeros)

lemma abi_encode_small_length: "length (abi_encode_small v) = 32"
  by (simp add: abi_encode_small_def)

lemma decode_20: "abi_decode_uint32 (abi_encode_small 20) = Inr 20"
  by (simp add: abi_decode_uint32_def abi_encode_small_length be_word_small)

lemma decode_15: "abi_decode_uint32 (abi_encode_small 15) = Inr 15"
  by (simp add: abi_decode_uint32_def abi_encode_small_length be_word_small)

lemma tie_tournament: "tournament mockFHE tie_ledger = Inr (Euint32 0x300000014, 0xC)"
  by (simp add: tournament_def tie_ledger_def mockFHE_def mock_decrypt_def)

lemma requested_state_reachable:
  "findHighestBidder mockFHE tie_state 0xF 200 7 =
     Inr (requested_state,
          [DecryptionRequested 7 1 (fingerprint mockFHE (Euint32 0x300000014) 0xC)])"
  by (simp add: findHighestBidder_def onlyOwner_def whenNotPaused_def
      checkDecryptionCooldown_def checked_add_def tie_tournament requested_state_def
      tie_state_def)

lemma requested_callback:
  "myCallback mockFHE requested_state 7 (abi_encode_small 20) [1] =
     Inr (requested_state\<lparr>decryptionContexts := (decryptionContexts requested_state)(7 :=
             \<lparr>batchId = 1, stateHash = fingerprint mockFHE (Euint32 0x300000014) 0xC,
              processed = True\<rparr>)\<rparr>,
          [AuctionSettled 7 1 0xC 20])"
  by (simp add: myCallback_def decode_20 requested_state_def tie_state_def tie_tournament)
     (simp add: mockFHE_def)

subsection \<open>Replay protection\<close>

text \<open>
  No call clears the \<open>processed\<close> flag of a request, except a new request that the
  oracle files under the same id.
\<close>

lemma dispatch_keeps_processed:
  assumes "dispatch F s a t c = Inr (s', evs)"
    and "processed (decryptionContexts s requestId)"
    and "c \<noteq> FindHighestBidder requestId"
  shows "processed (decryptionContexts s' requestId)"
proof (cases c)
  case (FindHighestBidder r)
  then show ?thesis using assms by (auto simp: findHighestBidder_Inr_iff)
next
  case (MyCallback r ct pf)
  then show ?thesis using assms by (auto simp: myCallback_Inr_iff)
next
  case (SubmitBid h)
  then show ?thesis using assms
    by (auto simp: submitBid_def onlyProvider_def whenNotPaused_def
        checkSubmissionCooldown_def split: if_splits sum.splits)
qed (use assms in \<open>auto simp: transferOwnership_def addProvider_def removeProvider_def
       pause_def unpause_def setCooldownSeconds_def openBatch_Inr_iff closeBatch_def
       onlyOwner_def whenNotPaused_def split: if_splits\<close>)

lemma exec_keeps_processed:
  assumes "processed (decryptionContexts s requestId)"
    and "\<forall>(a, t, c) \<in> set txs. c \<noteq> FindHighestBidder requestId"
    and "exec F s txs = Inr (s', evs)"
  shows "processed (decryptionContexts s' requestId)"
  using assms
proof (induction txs arbitrary: s evs)
  case Nil
  then show ?case by simp
next
  case (Cons tx txs)
  obtain a t c where tx: "tx = (a, t, c)" by (cases tx)
  from Cons.prems(3) tx obtain s1 evs1 s2 evs2 where
    d: "dispatch F s a t c = Inr (s1, evs1)" and e: "exec F s1 txs = Inr (s2, evs2)"
    and s2: "s' = s2"
    by (auto split: sum.splits)
  have "c \<noteq> FindHighestBidder requestId" using Cons.prems(2) tx by auto
  from dispatch_keeps_processed [OF d Cons.prems(1) this]
  have "processed (decryptionContexts s1 requestId)" .
  moreover have "\<forall>(a, t, c) \<in> set txs. c \<noteq> FindHighestBidder requestId"
    using Cons.prems(2) by simp
  ultimately show ?case using Cons.IH e s2 by blast
qed

text \<open>
  C2. After a successful callback for a request id, the flag \<open>processed\<close> of its context
  has gone from false to true, and every further callback for that id fails with
  \<open>ReplayAttempt\<close>, whatever cleartexts and proof it carries: immediately, and after
  any transactions in between that do not file a new request under the same id.
\<close>

theorem callback_replay_rejected:
  assumes first: "myCallback F s requestId cleartexts proof = Inr (s1, evs1)"
    and later: "exec F s1 txs = Inr (s2, evs2)"
    and fresh: "\<forall>(a, t, c) \<in> set txs. c \<noteq> FindHighestBidder requestId"
  shows "\<not> processed (decryptionContexts s requestId) \<and>
         processed (decryptionContexts s1 requestId) \<and>
         myCallback F s1 requestId cleartexts' proof' = Inl ReplayAttempt \<and>
         myCallback F s2 requestId cleartexts' proof' = Inl ReplayAttempt"
proof -
  have p0: "\<not> processed (decryptionContexts s requestId)"
    and p1: "processed (decryptionContexts s1 requestId)"
    using first by (auto simp: myCallback_Inr_iff)
  have p2: "processed (decryptionContexts s2 requestId)"
    by (rule exec_keeps_processed [OF p1 fresh later])
  show ?thesis using p0 p1 p2 by (simp add: myCallback_def)
qed

theorem callback_replay_rejected_witness:
  "\<exists>s1 s2 evs2.
     myCallback mockFHE requested_state 7 (abi_encode_small 20) [1] =
       Inr (s1, [AuctionSettled 7 1 0xC 20]) \<and>
     exec mockFHE s1 [(0xF, 300, CloseBatch), (0xF, 300, OpenBatch)] = Inr (s2, evs2) \<and>
     \<not> processed (decryptionContexts requested_state 7) \<and>
     processed (decryptionContexts s1 7) \<and>
     myCallback mockFHE s1 7 (abi_encode_small 20) [1] = Inl ReplayAttempt \<and>
     myCallback mockFHE s2 7 [] [] = Inl ReplayAttempt"
proof -
  let ?s1 = "requested_state\<lparr>decryptionContexts := (decryptionContexts requested_state)(7 :=
             \<lparr>batchId = 1, stateHash = fingerprint mockFHE (Euint32 0x300000014) 0xC,
              processed = True\<rparr>)\<rparr>"
  have "\<exists>r. exec mockFHE ?s1 [(0xF, 300, CloseBatch), (0xF, 300, OpenBatch)] = Inr r"
    by (simp add: closeBatch_def openBatch_def onlyOwner_def whenNotPaused_def checked_add_def
        requested_state_def tie_state_def)
  then obtain s2 evs2 where
    e: "exec mockFHE ?s1 [(0xF, 300, CloseBatch), (0xF, 300, OpenBatch)] = Inr (s2, evs2)"
    by auto
  have f: "\<forall>(a, t, c) \<in> set [(0xF :: address, 300 :: uint256, CloseBatch), (0xF, 300, OpenBatch)].
             c \<noteq> FindHighestBidder 7"
    by simp
  from callback_replay_rejected [OF requested_callback e f, of "abi_encode_small 20" "[1]"]
       callback_replay_rejected [OF requested_callback e f, of "[]" "[]"]
  show ?thesis using requested_callback e by blast
qed

subsection \<open>Tamper detection\<close>

lemma reopened_state_reachable:
  "openBatch requested_state 0xF = Inr (reopened_state, [BatchOpened 2])"
  by (simp add: openBatch_Inr_iff reopened_state_def)
     (simp add: requested_state_def tie_state_def)

lemma outbid_state_reachable:
  "submitBid mockFHE requested_state 0xF 300 (Euint32 0x40000001E) =
     Inr (outbid_state, [BidSubmitted 0xF 1 (Euint32 0x40000001E)])"
  by (simp add: submitBid_def onlyProvider_def whenNotPaused_def checkSubmissionCooldown_def
      checked_add_def outbid_state_def requested_state_def tie_state_def)
     (simp add: mockFHE_def)

lemma outbid_tournament:
  "tournament mockFHE (bids outbid_state) = Inr (Euint32 0x40000001E, 0xF)"
  by (simp add: outbid_state_def tournament_def tie_ledger_def mockFHE_def mock_decrypt_def)

lemma outbid_fingerprint:
  "fingerprint mockFHE (Euint32 0x40000001E) 0xF \<noteq> fingerprint mockFHE (Euint32 0x300000014) 0xC"
  by (simp add: fingerprint_def hashCiphertexts_def mockFHE_def toy_hash_def)

text \<open>
  C3. A request is made on the three-bid ledger and the owner opens the next batch before
  the callback arrives. The claim has the callback fail with \<open>StateMismatch\<close>. The code
  fails it with \<open>NoBidsInBatch\<close>: \<open>openBatch\<close> has emptied the ledger, and the callback
  checks for an empty ledger, on the line the source comments ``Should not happen if
  findHighestBidder was called'', before it recomputes any fingerprint.
\<close>

theorem callback_after_new_batch:
  "findHighestBidder mockFHE tie_state 0xF 200 7 =
     Inr (requested_state,
          [DecryptionRequested 7 1 (fingerprint mockFHE (Euint32 0x300000014) 0xC)]) \<and>
   openBatch requested_state 0xF = Inr (reopened_state, [BatchOpened 2]) \<and>
   myCallback mockFHE reopened_state 7 (abi_encode_small 20) [1] = Inl NoBidsInBatch \<and>
   myCallback mockFHE reopened_state 7 (abi_encode_small 20) [1] \<noteq> Inl StateMismatch"
proof -
  have "myCallback mockFHE reopened_state 7 (abi_encode_small 20) [1] = Inl NoBidsInBatch"
    by (simp add: myCallback_def tournament_def reopened_state_def requested_state_def
        tie_state_def)
  then show ?thesis
    using requested_state_reachable reopened_state_reachable by simp
qed

text \<open>
  The same for every backend, request and payload: after a successful
  \<open>findHighestBidder\<close>, with the context of the request untouched, the callback fails
  with \<open>NoBidsInBatch\<close> whenever the ledger is empty, as it is right after \<open>openBatch\<close>;
  on a ledger that is not empty it fails with \<open>StateMismatch\<close> when the fingerprint it
  recomputes differs from the one of the ledger at request time.
\<close>

lemma callback_after_request:
  assumes req: "findHighestBidder F s sender timestamp requestId = Inr (s1, evs1)"
    and ctx: "decryptionContexts s2 requestId = decryptionContexts s1 requestId"
  shows "bids s2 = [] \<Longrightarrow> myCallback F s2 requestId cleartexts proof = Inl NoBidsInBatch"
    and "tournament F (bids s2) = Inr (m, w) \<Longrightarrow> tournament F (bids s) = Inr (m0, w0) \<Longrightarrow>
         fingerprint F m w \<noteq> fingerprint F m0 w0 \<Longrightarrow>
         myCallback F s2 requestId cleartexts proof = Inl StateMismatch"
    and "openBatch s1 a = Inr (s3, evs3) \<Longrightarrow>
         myCallback F s3 requestId cleartexts proof = Inl NoBidsInBatch"
proof -
  from req obtain m1 w1 where
    t0: "tournament F (bids s) = Inr (m1, w1)" and
    c1: "decryptionContexts s1 requestId =
           \<lparr>batchId = currentBatchId s, stateHash = fingerprint F m1 w1, processed = False\<rparr>"
    by (auto simp: findHighestBidder_Inr_iff)
  have c2: "\<not> processed (decryptionContexts s2 requestId)"
    "stateHash (decryptionContexts s2 requestId) = fingerprint F m1 w1"
    using ctx c1 by simp_all
  show "bids s2 = [] \<Longrightarrow> myCallback F s2 requestId cleartexts proof = Inl NoBidsInBatch"
    using c2 by (simp add: myCallback_def tournament_def)
  show "tournament F (bids s2) = Inr (m, w) \<Longrightarrow> tournament F (bids s) = Inr (m0, w0) \<Longrightarrow>
         fingerprint F m w \<noteq> fingerprint F m0 w0 \<Longrightarrow>
         myCallback F s2 requestId cleartexts proof = Inl StateMismatch"
    using c2 t0 by (simp add: myCallback_def)
  show "openBatch s1 a = Inr (s3, evs3) \<Longrightarrow>
         myCallback F s3 requestId cleartexts proof = Inl NoBidsInBatch"
    using c1 by (auto simp: openBatch_Inr_iff myCallback_def tournament_def)
qed

text \<open>
  A bid submitted into the still open batch after the request is detected: the callback
  fails with \<open>StateMismatch\<close>.
\<close>

lemma outbid_callback_mismatch:
  "myCallback mockFHE outbid_state 7 (abi_encode_small 20) [1] = Inl StateMismatch"
proof -
  have ctx: "decryptionContexts outbid_state 7 = decryptionContexts requested_state 7"
    by (simp add: outbid_state_def)
  have t0: "tournament mockFHE (bids tie_state) = Inr (Euint32 0x300000014, 0xC)"
    using tie_tournament by (simp add: tie_state_def)
  show ?thesis
    by (rule callback_after_request(2)
          [OF requested_state_reachable ctx outbid_tournament t0 outbid_fingerprint])
qed

text \<open>
  A fingerprint binds the winning ciphertext and the winner, not the batch: when the
  winning bid is submitted again into the new batch, the callback of the old request
  settles.
\<close>

lemma stale_request_settles:
  "exec mockFHE reopened_state
     [(0xC, 300, SubmitBid (Euint32 0x300000014)),
      (0xD, 300, MyCallback 7 (abi_encode_small 20) [1])]
   = Inr (reopened_state
            \<lparr>lastSubmissionTime := (lastSubmissionTime reopened_state)(0xC := 300),
             bids := [\<lparr>bidder = 0xC, encryptedBidAmount = Euint32 0x300000014\<rparr>],
             decryptionContexts := (decryptionContexts reopened_state)(7 :=
               \<lparr>batchId = 1, stateHash = fingerprint mockFHE (Euint32 0x300000014) 0xC,
                processed = True\<rparr>)\<rparr>,
          [BidSubmitted 0xC 2 (Euint32 0x300000014), AuctionSettled 7 1 0xC 20])"
  by (simp add: submitBid_def onlyProvider_def whenNotPaused_def checkSubmissionCooldown_def
      checked_add_def myCallback_def tournament_def decode_20
      reopened_state_def requested_state_def tie_state_def)
     (simp add: mockFHE_def)

subsection \<open>Pause and guard order\<close>

lemma paused_state_reachable:
  "pause (fst (constructor 0xF)) 0xF = Inr (paused_state, [Paused 0xF])"
  by (simp add: pause_def onlyOwner_def whenNotPaused_def paused_state_def constructor_def)

text \<open>
  C4, as stated, fails: on the paused contract the owner adds a provider, removes a
  provider and sets the cooldown, and all three calls succeed.
\<close>

theorem paused_admin_counterexample:
  "pause (fst (constructor 0xF)) 0xF = Inr (paused_state, [Paused 0xF]) \<and>
   paused paused_state \<and>
   addProvider paused_state 0xF 0xA =
     Inr (paused_state\<lparr>isProvider := (isProvider paused_state)(0xA := True)\<rparr>,
          [ProviderAdded 0xA]) \<and>
   removeProvider paused_state 0xF 0xF =
     Inr (paused_state\<lparr>isProvider := (isProvider paused_state)(0xF := False)\<rparr>,
          [ProviderRemoved 0xF]) \<and>
   setCooldownSeconds paused_state 0xF 30 =
     Inr (paused_state\<lparr>cooldownSeconds := 30\<rparr>, [CooldownSecondsSet 60 30])"
  using paused_state_reachable
  by (simp add: addProvider_def removeProvider_def setCooldownSeconds_def onlyOwner_def
      paused_state_def constructor_def)

text \<open>
  C4, amended. While the contract is paused, \<open>pause\<close>, \<open>openBatch\<close>, \<open>closeBatch\<close> and
  \<open>findHighestBidder\<close> called by the owner, and \<open>submitBid\<close> called by a provider, fail
  with \<open>PausedError\<close>. The other functions do not read the pause flag and never fail
  with \<open>PausedError\<close>: \<open>addProvider\<close>, \<open>removeProvider\<close>, \<open>setCooldownSeconds\<close>,
  \<open>transferOwnership\<close>, \<open>unpause\<close> and \<open>myCallback\<close>.
\<close>

theorem paused_operations:
  assumes "paused s"
  shows "(sender = owner s \<longrightarrow>
            pause s sender = Inl PausedError \<and>
            openBatch s sender = Inl PausedError \<and>
            closeBatch s sender = Inl PausedError \<and>
            findHighestBidder F s sender timestamp requestId = Inl PausedError) \<and>
         (isProvider s sender \<longrightarrow> submitBid F s sender timestamp amount = Inl PausedError) \<and>
         addProvider s sender provider \<noteq> Inl PausedError \<and>
         removeProvider s sender provider \<noteq> Inl PausedError \<and>
         setCooldownSeconds s sender n \<noteq> Inl PausedError \<and>
         transferOwnership s sender newOwner \<noteq> Inl PausedError \<and>
         unpause s sender \<noteq> Inl PausedError \<and>
         myCallback F s requestId cleartexts proof \<noteq> Inl PausedError"
proof -
  have "tournament F (bids s) \<noteq> Inl PausedError"
    by (simp add: tournament_def split: list.splits)
  moreover have "abi_decode_uint32 cleartexts \<noteq> Inl PausedError"
    by (simp add: abi_decode_uint32_def)
  ultimately have "myCallback F s requestId cleartexts proof \<noteq> Inl PausedError"
    by (auto simp: myCallback_def split: sum.splits)
  then show ?thesis
    using assms
    by (simp add: pause_def openBatch_def closeBatch_def findHighestBidder_def submitBid_def
        addProvider_def removeProvider_def setCooldownSeconds_def transferOwnership_def
        unpause_def onlyOwner_def onlyProvider_def whenNotPaused_def)
qed

theorem paused_operations_witness:
  "paused paused_state \<and> 0xF = owner paused_state \<and> isProvider paused_state 0xF \<and>
   pause paused_state 0xF = Inl PausedError \<and>
   openBatch paused_state 0xF = Inl PausedError \<and>
   closeBatch paused_state 0xF = Inl PausedError \<and>
   findHighestBidder mockFHE paused_state 0xF 100 7 = Inl PausedError \<and>
   submitBid mockFHE paused_state 0xF 100 (Euint32 0x10000000A) = Inl PausedError \<and>
   addProvider paused_state 0xF 0xA \<noteq> Inl PausedError"
proof -
  have h: "paused paused_state" "0xF = owner paused_state" "isProvider paused_state 0xF"
    by (simp_all add: paused_state_def constructor_def)
  show ?thesis
    using paused_operations [OF h(1), of "0xF" mockFHE 100 7 "Euint32 0x10000000A" "0xA"] h
    by blast
qed

text \<open>The guards of \<open>submitBid\<close> and \<open>findHighestBidder\<close>, in the order they are checked.\<close>

lemma submitBid_guards:
  "submitBid F s sender timestamp amount =
     (if \<not> isProvider s sender then Inl NotProvider
      else if paused s then Inl PausedError
      else if \<not> unat (lastSubmissionTime s sender) + unat (cooldownSeconds s) < 2 ^ 256
        then Inl Panic
      else if timestamp < lastSubmissionTime s sender + cooldownSeconds s
        then Inl CooldownActive
      else if \<not> batchOpen s then Inl BatchNotOpen
      else if \<not> FHE_isInitialized F amount then Inl BidSubmissionFailed
      else Inr (s\<lparr>lastSubmissionTime := (lastSubmissionTime s)(sender := timestamp),
                  bids := bids s @ [\<lparr>bidder = sender, encryptedBidAmount = amount\<rparr>]\<rparr>,
                [BidSubmitted sender (currentBatchId s) amount]))"
  by (simp add: submitBid_def onlyProvider_def whenNotPaused_def checkSubmissionCooldown_def
      checked_add_def)

lemma findHighestBidder_guards:
  "findHighestBidder F s sender timestamp requestId =
     (if sender \<noteq> owner s then Inl NotOwner
      else if paused s then Inl PausedError
      else if \<not> unat (lastDecryptionRequestTime s sender) + unat (cooldownSeconds s) < 2 ^ 256
        then Inl Panic
      else if timestamp < lastDecryptionRequestTime s sender + cooldownSeconds s
        then Inl CooldownActive
      else case tournament F (bids s) of
          Inl e \<Rightarrow> Inl e
        | Inr (maxBid, winner) \<Rightarrow>
            Inr (s\<lparr>decryptionContexts := (decryptionContexts s)(requestId :=
                       \<lparr>batchId = currentBatchId s,
                        stateHash = fingerprint F maxBid winner,
                        processed = False\<rparr>),
                    lastDecryptionRequestTime :=
                      (lastDecryptionRequestTime s)(sender := timestamp)\<rparr>,
                 [DecryptionRequested requestId (currentBatchId s)
                    (fingerprint F maxBid winner)]))"
  by (simp add: findHighestBidder_def onlyOwner_def whenNotPaused_def
      checkDecryptionCooldown_def checked_add_def)

lemma owner_guards:
  "sender \<noteq> owner s \<Longrightarrow> pause s sender = Inl NotOwner \<and> openBatch s sender = Inl NotOwner \<and>
      closeBatch s sender = Inl NotOwner"
  "sender = owner s \<Longrightarrow> paused s \<Longrightarrow> pause s sender = Inl PausedError \<and>
      openBatch s sender = Inl PausedError \<and> closeBatch s sender = Inl PausedError"
  by (simp_all add: pause_def openBatch_def closeBatch_def onlyOwner_def whenNotPaused_def)

text \<open>
  C5, as stated, fails: on the paused contract \<open>submitBid\<close> from an address that is not a
  provider fails with \<open>NotProvider\<close>; the role is checked before the pause flag.
\<close>

theorem paused_nonprovider_counterexample:
  "paused paused_state \<and> \<not> isProvider paused_state 0xD \<and>
   submitBid mockFHE paused_state 0xD 100 (Euint32 0x10000000A) = Inl NotProvider \<and>
   submitBid mockFHE paused_state 0xD 100 (Euint32 0x10000000A) \<noteq> Inl PausedError"
  by (simp add: submitBid_def onlyProvider_def paused_state_def constructor_def)

text \<open>
  C5, amended. The guards run in the order the modifiers are written: the role first,
  then the pause flag, then the cooldown, then the checks in the body. So \<open>submitBid\<close>
  fails with \<open>NotProvider\<close> for a caller who is not a provider whatever the pause flag
  is, with \<open>PausedError\<close> for a provider on a paused contract whatever the cooldown is,
  and with \<open>CooldownActive\<close> for a provider on an unpaused contract inside the cooldown
  window whatever the batch and the ciphertext are; likewise the owner-only functions
  fail with \<open>NotOwner\<close> before \<open>PausedError\<close>, and \<open>findHighestBidder\<close> with
  \<open>PausedError\<close> before \<open>CooldownActive\<close>.
\<close>

theorem guard_order:
  "(\<not> isProvider s sender \<longrightarrow> submitBid F s sender timestamp amount = Inl NotProvider) \<and>
   (isProvider s sender \<and> paused s \<longrightarrow>
      submitBid F s sender timestamp amount = Inl PausedError) \<and>
   (isProvider s sender \<and> \<not> paused s \<and>
    unat (lastSubmissionTime s sender) + unat (cooldownSeconds s) < 2 ^ 256 \<and>
    timestamp < lastSubmissionTime s sender + cooldownSeconds s \<longrightarrow>
      submitBid F s sender timestamp amount = Inl CooldownActive) \<and>
   (sender \<noteq> owner s \<longrightarrow>
      pause s sender = Inl NotOwner \<and> openBatch s sender = Inl NotOwner \<and>
      closeBatch s sender = Inl NotOwner \<and>
      findHighestBidder F s sender timestamp requestId = Inl NotOwner) \<and>
   (sender = owner s \<and> paused s \<longrightarrow>
      pause s sender = Inl PausedError \<and> openBatch s sender = Inl PausedError \<and>
      closeBatch s sender = Inl PausedError \<and>
      findHighestBidder F s sender timestamp requestId = Inl PausedError) \<and>
   (sender = owner s \<and> \<not> paused s \<and>
    unat (lastDecryptionRequestTime s sender) + unat (cooldownSeconds s) < 2 ^ 256 \<and>
    timestamp < lastDecryptionRequestTime s sender + cooldownSeconds s \<longrightarrow>
      findHighestBidder F s sender timestamp requestId = Inl CooldownActive)"
proof -
  have 1: "\<not> isProvider s sender \<longrightarrow> submitBid F s sender timestamp amount = Inl NotProvider"
    by (simp add: submitBid_guards)
  have 2: "isProvider s sender \<and> paused s \<longrightarrow>
      submitBid F s sender timestamp amount = Inl PausedError"
    by (simp add: submitBid_guards)
  have 3: "isProvider s sender \<and> \<not> paused s \<and>
    unat (lastSubmissionTime s sender) + unat (cooldownSeconds s) < 2 ^ 256 \<and>
    timestamp < lastSubmissionTime s sender + cooldownSeconds s \<longrightarrow>
      submitBid F s sender timestamp amount = Inl CooldownActive"
    by (simp add: submitBid_guards)
  have 4: "sender \<noteq> owner s \<longrightarrow>
      pause s sender = Inl NotOwner \<and> openBatch s sender = Inl NotOwner \<and>
      closeBatch s sender = Inl NotOwner \<and>
      findHighestBidder F s sender timestamp requestId = Inl NotOwner"
    using owner_guards(1) [of sender s] by (simp add: findHighestBidder_guards)
  have 5: "sender = owner s \<and> paused s \<longrightarrow>
      pause s sender = Inl PausedError \<and> openBatch s sender = Inl PausedError \<and>
      closeBatch s sender = Inl PausedError \<and>
      findHighestBidder F s sender timestamp requestId = Inl PausedError"
    using owner_guards(2) [of sender s] by (simp add: findHighestBidder_guards)
  have 6: "sender = owner s \<and> \<not> paused s \<and>
    unat (lastDecryptionRequestTime s sender) + unat (cooldownSeconds s) < 2 ^ 256 \<and>
    timestamp < lastDecryptionRequestTime s sender + cooldownSeconds s \<longrightarrow>
      findHighestBidder F s sender timestamp requestId = Inl CooldownActive"
    by (auto simp: findHighestBidder_guards)
  show ?thesis using 1 2 3 4 5 6 by blast
qed

theorem guard_order_witness:
  "\<not> isProvider paused_state 0xD \<and>
   submitBid mockFHE paused_state 0xD 100 (Euint32 0x10000000A) = Inl NotProvider \<and>
   isProvider paused_state 0xF \<and> paused paused_state \<and>
   submitBid mockFHE paused_state 0xF 100 (Euint32 0x10000000A) = Inl PausedError \<and>
   isProvider tie_state 0xA \<and> \<not> paused tie_state \<and>
   submitBid mockFHE tie_state 0xA 159 (Euint32 0) = Inl CooldownActive \<and>
   0xD \<noteq> owner paused_state \<and> openBatch paused_state 0xD = Inl NotOwner \<and>
   0xF = owner paused_state \<and> openBatch paused_state 0xF = Inl PausedError \<and>
   0xF = owner tie_state \<and> findHighestBidder mockFHE tie_state 0xF 59 7 = Inl CooldownActive"
proof -
  have p: "\<not> isProvider paused_state 0xD" "isProvider paused_state 0xF" "paused paused_state"
    "0xD \<noteq> owner paused_state" "0xF = owner paused_state"
    by (simp_all add: paused_state_def constructor_def)
  have t: "isProvider tie_state 0xA" "\<not> paused tie_state" "0xF = owner tie_state"
    "unat (lastSubmissionTime tie_state 0xA) + unat (cooldownSeconds tie_state) < 2 ^ 256"
    "159 < lastSubmissionTime tie_state 0xA + cooldownSeconds tie_state"
    "unat (lastDecryptionRequestTime tie_state 0xF) + unat (cooldownSeconds tie_state) < 2 ^ 256"
    "59 < lastDecryptionRequestTime tie_state 0xF + cooldownSeconds tie_state"
    by (simp_all add: tie_state_def)
  note G1 = guard_order [of paused_state "0xD" mockFHE 100 "Euint32 0x10000000A" 7]
  note G2 = guard_order [of paused_state "0xF" mockFHE 100 "Euint32 0x10000000A" 7]
  note G3 = guard_order [of tie_state "0xA" mockFHE 159 "Euint32 0" 7]
  note G4 = guard_order [of tie_state "0xF" mockFHE 59 "Euint32 0" 7]
  have a: "submitBid mockFHE paused_state 0xD 100 (Euint32 0x10000000A) = Inl NotProvider"
    using G1 [THEN conjunct1] p(1) by simp
  have b: "submitBid mockFHE paused_state 0xF 100 (Euint32 0x10000000A) = Inl PausedError"
    using G2 [THEN conjunct2, THEN conjunct1] p(2,3) by simp
  have c: "submitBid mockFHE tie_state 0xA 159 (Euint32 0) = Inl CooldownActive"
    using G3 [THEN conjunct2, THEN conjunct2, THEN conjunct1] t(1,2,4,5) by simp
  have d: "openBatch paused_state 0xD = Inl NotOwner"
    using G1 [THEN conjunct2, THEN conjunct2, THEN conjunct2, THEN conjunct1] p(4) by simp
  have e: "openBatch paused_state 0xF = Inl PausedError"
    using G2 [THEN conjunct2, THEN conjunct2, THEN conjunct2, THEN conjunct2, THEN conjunct1]
      p(3,5) by simp
  have f: "findHighestBidder mockFHE tie_state 0xF 59 7 = Inl CooldownActive"
    using G4 [THEN conjunct2, THEN conjunct2, THEN conjunct2, THEN conjunct2, THEN conjunct2]
      t(2,3,6,7) by simp
  show ?thesis using a b c d e f p t(1,2,3) by simp
qed

subsection \<open>Submission cooldown\<close>

lemma huge_cooldown_state_reachable:
  "exec mockFHE (fst (constructor 0xF))
     [(0xF, 100, OpenBatch), (0xF, 100, SubmitBid (Euint32 0x10000000A)),
      (0xF, 100, SetCooldownSeconds (- 1))]
   = Inr (huge_cooldown_state,
          [BatchOpened 1, BidSubmitted 0xF 1 (Euint32 0x10000000A),
           CooldownSecondsSet 60 (- 1)])"
  by (simp add: constructor_def op_defs checked_add_def huge_cooldown_state_def mockFHE_def
      word_greater_zero_iff)

text \<open>
  C7, as stated, fails: the owner, a provider, submits a bid at time 100 and then sets the
  cooldown to the greatest \<^verbatim>\<open>uint256\<close>. A second bid at time 150 is inside the
  window, but the sum \<^verbatim>\<open>lastSubmissionTime[msg.sender] + cooldownSeconds\<close> overflows
  and the call reverts with the arithmetic panic, not with \<open>CooldownActive\<close>.
\<close>

theorem cooldown_overflow_counterexample:
  "exec mockFHE (fst (constructor 0xF))
     [(0xF, 100, OpenBatch), (0xF, 100, SubmitBid (Euint32 0x10000000A)),
      (0xF, 100, SetCooldownSeconds (- 1))]
   = Inr (huge_cooldown_state,
          [BatchOpened 1, BidSubmitted 0xF 1 (Euint32 0x10000000A),
           CooldownSecondsSet 60 (- 1)]) \<and>
   isProvider huge_cooldown_state 0xF \<and> \<not> paused huge_cooldown_state \<and>
   lastSubmissionTime huge_cooldown_state 0xF = 100 \<and>
   unat (150 :: uint256) <
     unat (lastSubmissionTime huge_cooldown_state 0xF) + unat (cooldownSeconds huge_cooldown_state) \<and>
   submitBid mockFHE huge_cooldown_state 0xF 150 (Euint32 0x200000014) = Inl Panic \<and>
   submitBid mockFHE huge_cooldown_state 0xF 150 (Euint32 0x200000014) \<noteq> Inl CooldownActive"
proof -
  have "submitBid mockFHE huge_cooldown_state 0xF 150 (Euint32 0x200000014) = Inl Panic"
    by (simp add: submitBid_guards huge_cooldown_state_def constructor_def
        unsigned_minus_1_eq_mask mask_eq_exp_minus_1)
  moreover have "isProvider huge_cooldown_state 0xF \<and> \<not> paused huge_cooldown_state \<and>
     lastSubmissionTime huge_cooldown_state 0xF = 100 \<and>
     unat (150 :: uint256) <
       unat (lastSubmissionTime huge_cooldown_state 0xF) +
       unat (cooldownSeconds huge_cooldown_state)"
    by (simp add: huge_cooldown_state_def constructor_def
        unsigned_minus_1_eq_mask mask_eq_exp_minus_1)
  moreover have "submitBid mockFHE huge_cooldown_state 0xF 150 (Euint32 0x200000014)
      \<noteq> Inl CooldownActive"
    using calculation(1) by simp
  ultimately show ?thesis using huge_cooldown_state_reachable by blast
qed

text \<open>
  C7, amended. For a caller who is a provider, on a contract that is not paused, and as
  long as \<^verbatim>\<open>lastSubmissionTime[caller] + cooldownSeconds\<close> does not overflow:
  \<open>submitBid\<close> at a time strictly less than that sum fails with \<open>CooldownActive\<close>; at
  that time or later, with the batch open and an initialised ciphertext, it succeeds.
  Every successful submission sets the caller's last submission time to the time of the
  call, so that a second submission right after it, inside the window, fails with
  \<open>CooldownActive\<close>.
\<close>

theorem submission_cooldown:
  assumes "isProvider s sender" and "\<not> paused s"
    and "unat (lastSubmissionTime s sender) + unat (cooldownSeconds s) < 2 ^ 256"
  shows "(unat timestamp < unat (lastSubmissionTime s sender) + unat (cooldownSeconds s) \<longrightarrow>
            submitBid F s sender timestamp amount = Inl CooldownActive) \<and>
         (unat (lastSubmissionTime s sender) + unat (cooldownSeconds s) \<le> unat timestamp \<and>
          batchOpen s \<and> FHE_isInitialized F amount \<longrightarrow>
            (\<exists>s1 evs. submitBid F s sender timestamp amount = Inr (s1, evs) \<and>
               lastSubmissionTime s1 sender = timestamp \<and>
               bids s1 = bids s @ [\<lparr>bidder = sender, encryptedBidAmount = amount\<rparr>])) \<and>
         (\<forall>s1 evs (t2 :: uint256) amount2.
            submitBid F s sender timestamp amount = Inr (s1, evs) \<and>
            unat timestamp + unat (cooldownSeconds s1) < 2 ^ 256 \<and>
            unat t2 < unat timestamp + unat (cooldownSeconds s1) \<longrightarrow>
              lastSubmissionTime s1 sender = timestamp \<and>
              submitBid F s1 sender t2 amount2 = Inl CooldownActive)"
proof -
  let ?last = "lastSubmissionTime s sender" and ?cd = "cooldownSeconds s"
  have sum: "unat (?last + ?cd) = unat ?last + unat ?cd"
    using assms(3) by (simp add: unat_word_ariths)
  have lt: "timestamp < ?last + ?cd \<longleftrightarrow> unat timestamp < unat ?last + unat ?cd"
    by (simp add: word_less_nat_alt sum)
  have A: "unat timestamp < unat ?last + unat ?cd \<longrightarrow>
            submitBid F s sender timestamp amount = Inl CooldownActive"
    using assms lt by (simp add: submitBid_guards)
  have B: "unat ?last + unat ?cd \<le> unat timestamp \<and> batchOpen s \<and> FHE_isInitialized F amount \<longrightarrow>
            (\<exists>s1 evs. submitBid F s sender timestamp amount = Inr (s1, evs) \<and>
               lastSubmissionTime s1 sender = timestamp \<and>
               bids s1 = bids s @ [\<lparr>bidder = sender, encryptedBidAmount = amount\<rparr>])"
    using assms lt by (simp add: submitBid_guards)
  have C: "\<forall>s1 evs (t2 :: uint256) amount2.
            submitBid F s sender timestamp amount = Inr (s1, evs) \<and>
            unat timestamp + unat (cooldownSeconds s1) < 2 ^ 256 \<and>
            unat t2 < unat timestamp + unat (cooldownSeconds s1) \<longrightarrow>
              lastSubmissionTime s1 sender = timestamp \<and>
              submitBid F s1 sender t2 amount2 = Inl CooldownActive"
  proof (intro allI impI, elim conjE)
    fix s1 evs amount2 and t2 :: uint256
    assume ok: "submitBid F s sender timestamp amount = Inr (s1, evs)"
      and no: "unat timestamp + unat (cooldownSeconds s1) < 2 ^ 256"
      and t2: "unat t2 < unat timestamp + unat (cooldownSeconds s1)"
    from ok have s1: "s1 = s\<lparr>lastSubmissionTime := (lastSubmissionTime s)(sender := timestamp),
                  bids := bids s @ [\<lparr>bidder = sender, encryptedBidAmount = amount\<rparr>]\<rparr>"
      by (simp add: submitBid_guards split: if_splits)
    have "unat (timestamp + cooldownSeconds s1) = unat timestamp + unat (cooldownSeconds s1)"
      using no by (simp add: unat_word_ariths)
    then have "t2 < timestamp + cooldownSeconds s1"
      using t2 by (simp add: word_less_nat_alt)
    then show "lastSubmissionTime s1 sender = timestamp \<and>
              submitBid F s1 sender t2 amount2 = Inl CooldownActive"
      using assms(1,2) no by (simp add: submitBid_guards s1)
  qed
  show ?thesis using A B C by blast
qed

theorem submission_cooldown_witness:
  "isProvider tie_state 0xA \<and> \<not> paused tie_state \<and>
   lastSubmissionTime tie_state 0xA = 100 \<and> cooldownSeconds tie_state = 60 \<and>
   submitBid mockFHE tie_state 0xA 159 (Euint32 0x10000000B) = Inl CooldownActive \<and>
   (\<exists>s1 evs. submitBid mockFHE tie_state 0xA 160 (Euint32 0x10000000B) = Inr (s1, evs) \<and>
      lastSubmissionTime s1 0xA = 160 \<and>
      submitBid mockFHE s1 0xA 219 (Euint32 0x10000000C) = Inl CooldownActive)"
proof -
  have h: "isProvider tie_state 0xA" "\<not> paused tie_state"
    "unat (lastSubmissionTime tie_state 0xA) + unat (cooldownSeconds tie_state) < 2 ^ 256"
    by (simp_all add: tie_state_def)
  have v: "lastSubmissionTime tie_state 0xA = 100" "cooldownSeconds tie_state = 60"
    "batchOpen tie_state"
    by (simp_all add: tie_state_def)
  have i: "FHE_isInitialized mockFHE (Euint32 0x10000000B)" by (simp add: mockFHE_def)
  note S1 = submission_cooldown [OF h, of 159 mockFHE "Euint32 0x10000000B"]
  note S2 = submission_cooldown [OF h, of 160 mockFHE "Euint32 0x10000000B"]
  have a: "submitBid mockFHE tie_state 0xA 159 (Euint32 0x10000000B) = Inl CooldownActive"
    using S1 [THEN conjunct1] v by simp
  obtain s1 evs where
    b: "submitBid mockFHE tie_state 0xA 160 (Euint32 0x10000000B) = Inr (s1, evs)"
      "lastSubmissionTime s1 0xA = 160"
    using S2 [THEN conjunct2, THEN conjunct1] v i by auto
  have cd: "cooldownSeconds s1 = 60"
    using b(1) v by (auto simp: submitBid_guards split: if_splits)
  have c: "submitBid mockFHE s1 0xA 219 (Euint32 0x10000000C) = Inl CooldownActive"
    using S2 [THEN conjunct2, THEN conjunct2, rule_format, of s1 evs 219 "Euint32 0x10000000C"]
      b(1) cd by simp
  show ?thesis using h(1,2) v(1,2) a b c by blast
qed

subsection \<open>End to end\<close>

text \<open>
  The tournament on three bids of which the second is at least the first and greater
  than the third: the ciphertext it arrives at, written out in the operations of the FHE
  library, has the plaintext of the second bid, and the second bidder wins.
\<close>

lemma three_bid_tournament_B:
  assumes hom: "homomorphic F dec"
    and order: "dec hA \<le> dec hB" "dec hC < dec hB"
  shows "tournament F [\<lparr>bidder = A, encryptedBidAmount = hA\<rparr>,
                       \<lparr>bidder = B, encryptedBidAmount = hB\<rparr>,
                       \<lparr>bidder = C, encryptedBidAmount = hC\<rparr>] =
           Inr (three_bid_max F hA hB hC, B) \<and>
         dec (three_bid_max F hA hB hC) = dec hB"
proof -
  have ge: "\<And>a b. FHE_truth F (FHE_ge F a b) = (dec b \<le> dec a)"
    and sel: "\<And>a b c. dec (FHE_select F a b c) = (if FHE_truth F c then dec a else dec b)"
    using hom by (simp_all add: homomorphic_def)
  have n: "\<not> dec hB \<le> dec hC" using order(2) by simp
  show ?thesis
    by (simp add: tournament_def three_bid_max_def Let_def ge sel order(1) n)
qed

text \<open>
  The whole run, for any plaintexts with which B wins and any cleartext whose proof
  verifies: every call succeeds, and the plaintexts show nowhere in the result but in the
  amount of the last event, which is the cleartext.
\<close>

lemma scenario_run:
  assumes hom: "homomorphic F dec"
    and order: "dec hA \<le> dec hB" "dec hC < dec hB"
    and init: "FHE_isInitialized F hA" "FHE_isInitialized F hB" "FHE_isInitialized F hC"
    and people: "distinct [Owner, A, B, C]"
    and times: "60 \<le> t1" "60 \<le> t2"
    and valid: "FHE_checkSignatures F requestId cleartexts proof"
    and decoded: "abi_decode_uint32 cleartexts = Inr amount"
  shows "exec F (fst (constructor Owner))
           (scenario_calls Owner A B C hA hB hC t0 t1 t2 requestId @
            [(X, t3, MyCallback requestId cleartexts proof)])
         = Inr (settled_storage F Owner A B C hA hB hC t1 t2 requestId,
                scenario_events F A B C hA hB hC requestId @
                [AuctionSettled requestId 1 B (ucast amount)])"
proof -
  have t: "tournament F [\<lparr>bidder = A, encryptedBidAmount = hA\<rparr>,
                         \<lparr>bidder = B, encryptedBidAmount = hB\<rparr>,
                         \<lparr>bidder = C, encryptedBidAmount = hC\<rparr>] =
             Inr (three_bid_max F hA hB hC, B)"
    using three_bid_tournament_B [OF hom order] by blast
  have nt: "\<not> t1 < 60" "\<not> t2 < 60" using times by (simp_all add: not_less)
  have ne: "Owner \<noteq> A" "Owner \<noteq> B" "Owner \<noteq> C" "A \<noteq> B" "A \<noteq> C" "B \<noteq> C"
    using people by auto
  show ?thesis
    using nt ne init valid
    by (simp add: scenario_calls_def scenario_events_def settled_storage_def
        constructor_def addProvider_def openBatch_def closeBatch_def onlyOwner_def
        whenNotPaused_def submitBid_guards findHighestBidder_guards myCallback_def
        checked_add_def t decoded)
qed

lemma same_handles_outputs:
  assumes "same_handles F F'"
  shows "settled_storage F' Owner A B C hA hB hC t1 t2 requestId =
           settled_storage F Owner A B C hA hB hC t1 t2 requestId"
    and "scenario_events F' A B C hA hB hC requestId = scenario_events F A B C hA hB hC requestId"
  using assms
  by (simp_all add: same_handles_def settled_storage_def scenario_events_def fingerprint_def
      hashCiphertexts_def three_bid_max_def)

text \<open>
  C8. On a freshly deployed contract the owner registers the bidders A, B and C and opens
  a batch; A, B and C submit ciphertexts of 5, 15 and 9; the owner closes the batch and
  calls \<open>findHighestBidder\<close>; the callback arrives with the cleartext 15 and a proof
  that verifies. Every call succeeds; the last event is \<open>AuctionSettled\<close> with winner B
  and amount 15, the greatest of the three bids. No other output reveals a bid amount,
  and this one reveals the winning amount only: with the same ciphertext handles and any
  other plaintexts under them with which B still wins, the same calls leave the same
  storage and emit the same events, up to the amount of \<open>AuctionSettled\<close>, which is the
  cleartext the callback was given; and where the oracle signs nothing but the decryption
  of the ciphertext it was asked for, that amount is B's bid, the greatest of the three.
\<close>

theorem end_to_end_settlement:
  assumes hom: "homomorphic F dec"
    and amounts: "dec hA = 5" "dec hB = 15" "dec hC = 9"
    and init: "FHE_isInitialized F hA" "FHE_isInitialized F hB" "FHE_isInitialized F hC"
    and people: "distinct [Owner, A, B, C]"
    and times: "60 \<le> t1" "60 \<le> t2"
    and valid: "FHE_checkSignatures F requestId (abi_encode_small 15) proof"
  shows "exec F (fst (constructor Owner))
           (scenario_calls Owner A B C hA hB hC t0 t1 t2 requestId @
            [(X, t3, MyCallback requestId (abi_encode_small 15) proof)])
         = Inr (settled_storage F Owner A B C hA hB hC t1 t2 requestId,
                scenario_events F A B C hA hB hC requestId @
                [AuctionSettled requestId 1 B 15]) \<and>
         dec hB = 15 \<and> Max (set (map dec [hA, hB, hC])) = 15 \<and>
         (\<forall>F' dec' X' t3' cleartexts' proof' amount'.
            same_handles F F' \<and> homomorphic F' dec' \<and>
            dec' hA \<le> dec' hB \<and> dec' hC < dec' hB \<and>
            FHE_checkSignatures F' requestId cleartexts' proof' \<and>
            abi_decode_uint32 cleartexts' = Inr amount' \<longrightarrow>
            exec F' (fst (constructor Owner))
              (scenario_calls Owner A B C hA hB hC t0 t1 t2 requestId @
               [(X', t3', MyCallback requestId cleartexts' proof')])
            = Inr (settled_storage F Owner A B C hA hB hC t1 t2 requestId,
                   scenario_events F A B C hA hB hC requestId @
                   [AuctionSettled requestId 1 B (ucast amount')]) \<and>
            ((\<forall>ct pf. FHE_checkSignatures F' requestId ct pf \<longrightarrow>
                 abi_decode_uint32 ct = Inr (dec' (three_bid_max F' hA hB hC))) \<longrightarrow>
             amount' = dec' hB \<and> amount' = Max (set (map dec' [hA, hB, hC]))))"
proof -
  have order: "dec hA \<le> dec hB" "dec hC < dec hB" using amounts by simp_all
  have run: "exec F (fst (constructor Owner))
           (scenario_calls Owner A B C hA hB hC t0 t1 t2 requestId @
            [(X, t3, MyCallback requestId (abi_encode_small 15) proof)])
         = Inr (settled_storage F Owner A B C hA hB hC t1 t2 requestId,
                scenario_events F A B C hA hB hC requestId @
                [AuctionSettled requestId 1 B 15])"
    using scenario_run [OF hom order init people times valid decode_15] by simp
  have mx: "Max (set (map dec [hA, hB, hC])) = 15" using amounts by simp
  have other: "\<forall>F' dec' X' t3' cleartexts' proof' amount'.
            same_handles F F' \<and> homomorphic F' dec' \<and>
            dec' hA \<le> dec' hB \<and> dec' hC < dec' hB \<and>
            FHE_checkSignatures F' requestId cleartexts' proof' \<and>
            abi_decode_uint32 cleartexts' = Inr amount' \<longrightarrow>
            exec F' (fst (constructor Owner))
              (scenario_calls Owner A B C hA hB hC t0 t1 t2 requestId @
               [(X', t3', MyCallback requestId cleartexts' proof')])
            = Inr (settled_storage F Owner A B C hA hB hC t1 t2 requestId,
                   scenario_events F A B C hA hB hC requestId @
                   [AuctionSettled requestId 1 B (ucast amount')]) \<and>
            ((\<forall>ct pf. FHE_checkSignatures F' requestId ct pf \<longrightarrow>
                 abi_decode_uint32 ct = Inr (dec' (three_bid_max F' hA hB hC))) \<longrightarrow>
             amount' = dec' hB \<and> amount' = Max (set (map dec' [hA, hB, hC])))"
  proof (intro allI impI, elim conjE)
    fix F' dec' X' t3' cleartexts' proof' amount'
    assume sh: "same_handles F F'" and hom': "homomorphic F' dec'"
      and o1: "dec' hA \<le> dec' hB" and o2: "dec' hC < dec' hB"
      and v: "FHE_checkSignatures F' requestId cleartexts' proof'"
      and d: "abi_decode_uint32 cleartexts' = Inr amount'"
    have init': "FHE_isInitialized F' hA" "FHE_isInitialized F' hB" "FHE_isInitialized F' hC"
      using sh init by (simp_all add: same_handles_def)
    have r: "exec F' (fst (constructor Owner))
              (scenario_calls Owner A B C hA hB hC t0 t1 t2 requestId @
               [(X', t3', MyCallback requestId cleartexts' proof')])
            = Inr (settled_storage F Owner A B C hA hB hC t1 t2 requestId,
                   scenario_events F A B C hA hB hC requestId @
                   [AuctionSettled requestId 1 B (ucast amount')])"
      using scenario_run [OF hom' o1 o2 init' people times v d, of t0 X' t3']
      by (simp add: same_handles_outputs [OF sh])
    have dm: "dec' (three_bid_max F' hA hB hC) = dec' hB"
      using three_bid_tournament_B [OF hom' o1 o2] by blast
    have mx': "Max (set (map dec' [hA, hB, hC])) = dec' hB"
      using o1 o2 by (auto simp: max_def)
    have s: "(\<forall>ct pf. FHE_checkSignatures F' requestId ct pf \<longrightarrow>
                 abi_decode_uint32 ct = Inr (dec' (three_bid_max F' hA hB hC))) \<longrightarrow>
             amount' = dec' hB \<and> amount' = Max (set (map dec' [hA, hB, hC]))"
    proof
      assume "\<forall>ct pf. FHE_checkSignatures F' requestId ct pf \<longrightarrow>
                 abi_decode_uint32 ct = Inr (dec' (three_bid_max F' hA hB hC))"
      with v d have "amount' = dec' (three_bid_max F' hA hB hC)" by fastforce
      then show "amount' = dec' hB \<and> amount' = Max (set (map dec' [hA, hB, hC]))"
        using dm mx' by simp
    qed
    show "exec F' (fst (constructor Owner))
              (scenario_calls Owner A B C hA hB hC t0 t1 t2 requestId @
               [(X', t3', MyCallback requestId cleartexts' proof')])
            = Inr (settled_storage F Owner A B C hA hB hC t1 t2 requestId,
                   scenario_events F A B C hA hB hC requestId @
                   [AuctionSettled requestId 1 B (ucast amount')]) \<and>
            ((\<forall>ct pf. FHE_checkSignatures F' requestId ct pf \<longrightarrow>
                 abi_decode_uint32 ct = Inr (dec' (three_bid_max F' hA hB hC))) \<longrightarrow>
             amount' = dec' hB \<and> amount' = Max (set (map dec' [hA, hB, hC])))"
      using r s by blast
  qed
  show ?thesis using run amounts(2) mx other by blast
qed

lemma table_homomorphic:
  "homomorphic (tableFHE w) (table_dec 5 15 9)" "homomorphic (tableFHE w) (table_dec 6 20 10)"
  by (auto simp: homomorphic_def tableFHE_def table_dec_def)

lemma table_same_handles: "same_handles (tableFHE 15) (tableFHE 20)"
  by (simp add: same_handles_def tableFHE_def)

theorem end_to_end_settlement_witness:
  "exec (tableFHE 15) (fst (constructor 0xF))
     (scenario_calls 0xF 0xA 0xB 0xC (Euint32 1) (Euint32 2) (Euint32 3) 50 100 200 7 @
      [(0xD, 300, MyCallback 7 (abi_encode_small 15) [1])])
   = Inr (settled_storage (tableFHE 15) 0xF 0xA 0xB 0xC (Euint32 1) (Euint32 2) (Euint32 3)
            100 200 7,
          scenario_events (tableFHE 15) 0xA 0xB 0xC (Euint32 1) (Euint32 2) (Euint32 3) 7 @
          [AuctionSettled 7 1 0xB 15]) \<and>
   table_dec 5 15 9 (Euint32 1) = 5 \<and> table_dec 5 15 9 (Euint32 3) = 9 \<and>
   table_dec 6 20 10 (Euint32 1) = 6 \<and> table_dec 6 20 10 (Euint32 3) = 10 \<and>
   exec (tableFHE 20) (fst (constructor 0xF))
     (scenario_calls 0xF 0xA 0xB 0xC (Euint32 1) (Euint32 2) (Euint32 3) 50 100 200 7 @
      [(0xE, 400, MyCallback 7 (abi_encode_small 20) [1])])
   = Inr (settled_storage (tableFHE 15) 0xF 0xA 0xB 0xC (Euint32 1) (Euint32 2) (Euint32 3)
            100 200 7,
          scenario_events (tableFHE 15) 0xA 0xB 0xC (Euint32 1) (Euint32 2) (Euint32 3) 7 @
          [AuctionSettled 7 1 0xB 20]) \<and>
   (20 :: uint32) = Max (set (map (table_dec 6 20 10) [Euint32 1, Euint32 2, Euint32 3]))"
proof -
  have amounts: "table_dec 5 15 9 (Euint32 1) = 5" "table_dec 5 15 9 (Euint32 2) = 15"
    "table_dec 5 15 9 (Euint32 3) = 9"
    by (simp_all add: table_dec_def)
  have amounts': "table_dec 6 20 10 (Euint32 1) = 6" "table_dec 6 20 10 (Euint32 2) = 20"
    "table_dec 6 20 10 (Euint32 3) = 10"
    by (simp_all add: table_dec_def)
  have init: "FHE_isInitialized (tableFHE 15) (Euint32 1)"
    "FHE_isInitialized (tableFHE 15) (Euint32 2)" "FHE_isInitialized (tableFHE 15) (Euint32 3)"
    by (simp_all add: tableFHE_def)
  have people: "distinct [0xF :: address, 0xA, 0xB, 0xC]" by simp
  have times: "(60 :: uint256) \<le> 100" "(60 :: uint256) \<le> 200" by simp_all
  have valid: "FHE_checkSignatures (tableFHE 15) 7 (abi_encode_small 15) [1]"
    by (simp add: tableFHE_def decode_15)
  note E = end_to_end_settlement [OF table_homomorphic(1) amounts init people times valid,
      of 50 "0xD" 300]
  have order': "table_dec 6 20 10 (Euint32 1) \<le> table_dec 6 20 10 (Euint32 2)"
    "table_dec 6 20 10 (Euint32 3) < table_dec 6 20 10 (Euint32 2)"
    by (simp_all add: amounts')
  have valid': "FHE_checkSignatures (tableFHE 20) 7 (abi_encode_small 20) [1]"
    by (simp add: tableFHE_def decode_20)
  have sound': "\<forall>ct pf. FHE_checkSignatures (tableFHE 20) 7 ct pf \<longrightarrow>
      abi_decode_uint32 ct =
        Inr (table_dec 6 20 10 (three_bid_max (tableFHE 20) (Euint32 1) (Euint32 2) (Euint32 3)))"
    by (simp add: tableFHE_def three_bid_max_def table_dec_def)
  note O = E [THEN conjunct2, THEN conjunct2, THEN conjunct2, rule_format,
      of "tableFHE 20" "table_dec 6 20 10" "abi_encode_small 20" "[1]" 20 "0xE" 400]
  have O': "exec (tableFHE 20) (fst (constructor 0xF))
     (scenario_calls 0xF 0xA 0xB 0xC (Euint32 1) (Euint32 2) (Euint32 3) 50 100 200 7 @
      [(0xE, 400, MyCallback 7 (abi_encode_small 20) [1])])
   = Inr (settled_storage (tableFHE 15) 0xF 0xA 0xB 0xC (Euint32 1) (Euint32 2) (Euint32 3)
            100 200 7,
          scenario_events (tableFHE 15) 0xA 0xB 0xC (Euint32 1) (Euint32 2) (Euint32 3) 7 @
          [AuctionSettled 7 1 0xB (ucast (20 :: uint32))]) \<and>
     ((\<forall>ct pf. FHE_checkSignatures (tableFHE 20) 7 ct pf \<longrightarrow>
         abi_decode_uint32 ct =
           Inr (table_dec 6 20 10
                  (three_bid_max (tableFHE 20) (Euint32 1) (Euint32 2) (Euint32 3)))) \<longrightarrow>
      (20 :: uint32) = table_dec 6 20 10 (Euint32 2) \<and>
      (20 :: uint32) = Max (set (map (table_dec 6 20 10) [Euint32 1, Euint32 2, Euint32 3])))"
    using O table_same_handles table_homomorphic(2) order' valid' decode_20 by blast
  have u: "(ucast (20 :: uint32) :: uint256) = 20" by simp
  show ?thesis
    using E [THEN conjunct1] O' sound' amounts(1,3) amounts'(1,3) unfolding u by blast
qed

text \<open>
  In any state and for any call, an \<open>AuctionSettled\<close> event is emitted by the callback
  only, as the single event of the call, and the amount in it is the cleartext the
  callback was given.
\<close>

lemma settlement_only_from_callback:
  assumes "dispatch F s sender timestamp c = Inr (s', evs)"
    and "AuctionSettled r b w x \<in> set evs"
  shows "\<exists>cleartexts proof amount. c = MyCallback r cleartexts proof \<and>
           abi_decode_uint32 cleartexts = Inr amount \<and> x = ucast amount \<and>
           evs = [AuctionSettled r b w x]"
proof (cases c)
  case (FindHighestBidder r')
  then show ?thesis using assms by (auto simp: findHighestBidder_Inr_iff)
next
  case (MyCallback r' ct pf)
  then show ?thesis using assms by (auto simp: myCallback_Inr_iff)
next
  case (SubmitBid h)
  then show ?thesis using assms by (auto simp: submitBid_guards split: if_splits)
qed (use assms in \<open>auto simp: transferOwnership_def addProvider_def removeProvider_def
       pause_def unpause_def setCooldownSeconds_def openBatch_Inr_iff closeBatch_def
       onlyOwner_def whenNotPaused_def split: if_splits\<close>)

end
